theory Spec2Isabelle
  imports Complex_Main "HOL-Library.AList"
begin

section \<open>Python values used by the scraper\<close>

text \<open>
  The development embeds \<^verbatim>\<open>scripts/scraper.py\<close>. A Python \<^verbatim>\<open>str\<close> is
  modelled by the byte list of its UTF-8 encoding, so every text has a model and
  \<^verbatim>\<open>str.replace\<close> agrees with the replacement of code points (UTF-8 is
  self-synchronising). A \<^verbatim>\<open>dict\<close> is an association list in insertion order
  with distinct keys. An exception is a value of \<open>py_error\<close>; a computation that
  may raise returns \<open>py_error + 'a\<close>. Output written by \<^verbatim>\<open>print\<close> is not
  modelled.
\<close>

datatype py_error =
    AttributeError
  | TypeError
  | KeyError string
  | IndexError
  | ValueError
  | HTTPError int
  | ConnectionError
  | MissingSchema

definition bnd :: "py_error + 'a \<Rightarrow> ('a \<Rightarrow> py_error + 'b) \<Rightarrow> py_error + 'b" where
  "bnd m f = (case m of Inl e \<Rightarrow> Inl e | Inr x \<Rightarrow> f x)"

text \<open>\<^verbatim>\<open>d.get(k, default)\<close>\<close>

definition dict_get :: "('k \<times> 'v) list \<Rightarrow> 'k \<Rightarrow> 'v \<Rightarrow> 'v" where
  "dict_get d k dflt = (case map_of d k of None \<Rightarrow> dflt | Some v \<Rightarrow> v)"

section \<open>Strings\<close>

text \<open>
  \<^verbatim>\<open>s.replace(old, new)\<close>: the occurrences of \<open>old\<close> are replaced from left
  to right without overlap; an empty \<open>old\<close> matches between all characters.
\<close>

function str_replace :: "string \<Rightarrow> string \<Rightarrow> string \<Rightarrow> string" where
  "str_replace old new s =
     (if old = [] then new @ concat (map (\<lambda>c. c # new) s)
      else if s = [] then []
      else if take (length old) s = old
           then new @ str_replace old new (drop (length old) s)
           else hd s # str_replace old new (tl s))"
  by pat_completeness auto
termination
  by (relation "measure (\<lambda>(old, new, s). length s)") (auto simp: neq_Nil_conv)

declare str_replace.simps [simp del]

text \<open>
  White space. \<open>str_space\<close> lists the encodings of the code points for which
  \<^verbatim>\<open>str.isspace\<close> holds (they are what \<^verbatim>\<open>str.strip()\<close> removes and what
  the pattern \<^verbatim>\<open>\S+\<close> excludes); \<open>c_space\<close> is the C locale's \<^verbatim>\<open>isspace\<close>.
\<close>

definition unicode_space :: "string list" where
  "unicode_space =
     [[CHR 0xC2, CHR 0x85], [CHR 0xC2, CHR 0xA0], [CHR 0xE1, CHR 0x9A, CHR 0x80]]
     @ map (\<lambda>b. [CHR 0xE2, CHR 0x80, b])
         [CHR 0x80, CHR 0x81, CHR 0x82, CHR 0x83, CHR 0x84, CHR 0x85, CHR 0x86, CHR 0x87,
          CHR 0x88, CHR 0x89, CHR 0x8A, CHR 0xA8, CHR 0xA9, CHR 0xAF]
     @ [[CHR 0xE2, CHR 0x81, CHR 0x9F], [CHR 0xE3, CHR 0x80, CHR 0x80]]"

definition c_space :: "string list" where
  "c_space = map (\<lambda>c. [c]) [CHR 0x09, CHR 0x0A, CHR 0x0B, CHR 0x0C, CHR 0x0D, CHR 0x20]"

definition str_space :: "string list" where
  "str_space = c_space @ map (\<lambda>c. [c]) [CHR 0x1C, CHR 0x1D, CHR 0x1E, CHR 0x1F] @ unicode_space"

definition space_len :: "string list \<Rightarrow> string \<Rightarrow> nat" where
  "space_len tbl s = (case find (\<lambda>w. take (length w) s = w) tbl of None \<Rightarrow> 0 | Some w \<Rightarrow> length w)"

function lstrip :: "string list \<Rightarrow> string \<Rightarrow> string" where
  "lstrip tbl s = (if space_len tbl s = 0 then s else lstrip tbl (drop (space_len tbl s) s))"
  by pat_completeness auto
termination
proof (relation "measure (\<lambda>(tbl, s). length s)")
  show "wf (measure (\<lambda>(tbl, s). length s))" by simp
next
  fix tbl :: "string list" and s :: string
  assume "space_len tbl s \<noteq> 0"
  then have "s \<noteq> []"
    by (auto simp: space_len_def find_Some_iff split: option.splits)
  with \<open>space_len tbl s \<noteq> 0\<close>
  show "((tbl, drop (space_len tbl s) s), (tbl, s)) \<in> measure (\<lambda>(tbl, s). length s)"
    by simp
qed

declare lstrip.simps [simp del]

definition strip_with :: "string list \<Rightarrow> string \<Rightarrow> string" where
  "strip_with tbl s = rev (lstrip (map rev tbl) (rev (lstrip tbl s)))"

definition strip :: "string \<Rightarrow> string" where
  "strip s = strip_with str_space s"

function split_space :: "string \<Rightarrow> string \<Rightarrow> string list" where
  "split_space cur s =
     (if s = [] then (if cur = [] then [] else [cur])
      else if space_len str_space s \<noteq> 0
           then (if cur = [] then [] else [cur]) @ split_space [] (drop (space_len str_space s) s)
           else split_space (cur @ [hd s]) (tl s))"
  by pat_completeness auto
termination
  by (relation "measure (\<lambda>(cur, s). length s)") (auto simp: neq_Nil_conv)

declare split_space.simps [simp del]

section \<open>float\<close>

text \<open>
  \<^verbatim>\<open>float(s)\<close> on a string. The syntax follows CPython: underscores are removed
  where they stand between two digits and rejected elsewhere, surrounding white space is
  dropped, then an optional sign is followed by \<^verbatim>\<open>inf\<close>, \<^verbatim>\<open>infinity\<close> or
  \<^verbatim>\<open>nan\<close> in any letter case, or by a decimal number with an optional exponent.
  The value is the exact rational number the text denotes: the rounding to binary64
  (with it the overflow to infinity and the sign of zero) is not modelled. Decimal digits
  outside ASCII, which CPython also accepts, are rejected by this model.
\<close>

datatype pyfloat = Finite rat | PosInf | NegInf | NaN

definition is_digit :: "char \<Rightarrow> bool" where
  "is_digit c = (c \<in> set ''0123456789'')"

definition digit_val :: "char \<Rightarrow> nat" where
  "digit_val c = of_char c - 48"

definition nat_of_digits :: "string \<Rightarrow> nat" where
  "nat_of_digits ds = foldl (\<lambda>n c. 10 * n + digit_val c) 0 ds"

fun underscores :: "char \<Rightarrow> string \<Rightarrow> string option" where
  "underscores prev [] = (if prev = CHR ''_'' then None else Some [])"
| "underscores prev (c # cs) =
     (if c = CHR ''_'' then (if is_digit prev then underscores c cs else None)
      else if prev = CHR ''_'' \<and> \<not> is_digit c then None
      else map_option ((#) c) (underscores c cs))"

definition split_sign :: "string \<Rightarrow> bool \<times> string" where
  "split_sign s =
     (case s of [] \<Rightarrow> (False, [])
      | c # cs \<Rightarrow> if c = CHR ''-'' then (True, cs) else if c = CHR ''+'' then (False, cs)
                   else (False, s))"

definition ascii_lower :: "string \<Rightarrow> string" where
  "ascii_lower s =
     map (\<lambda>c. if 65 \<le> (of_char c :: nat) \<and> (of_char c :: nat) \<le> 90
               then char_of ((of_char c :: nat) + 32) else c) s"

definition decimal_value :: "bool \<Rightarrow> string \<Rightarrow> string \<Rightarrow> int \<Rightarrow> pyfloat" where
  "decimal_value neg ip fp e =
     (let m = (of_nat (nat_of_digits (ip @ fp)) :: rat);
          k = e - int (length fp);
          v = (if 0 \<le> k then m * 10 ^ nat k else m / 10 ^ nat (- k))
      in Finite (if neg then - v else v))"

definition float_inner :: "string \<Rightarrow> pyfloat option" where
  "float_inner s0 =
     (let s = strip_with (c_space @ unicode_space) s0;
          (neg, r) = split_sign s;
          l = ascii_lower r
      in if l = ''inf'' \<or> l = ''infinity'' then Some (if neg then NegInf else PosInf)
         else if l = ''nan'' then Some NaN
         else
           let ip = takeWhile is_digit r;
               r1 = dropWhile is_digit r;
               (fp, r2) = (case r1 of [] \<Rightarrow> ([], [])
                           | c # cs \<Rightarrow> if c = CHR ''.''
                                        then (takeWhile is_digit cs, dropWhile is_digit cs)
                                        else ([], r1))
           in if ip = [] \<and> fp = [] then None
              else (case r2 of [] \<Rightarrow> Some (decimal_value neg ip fp 0)
                    | c # cs \<Rightarrow>
                        if c = CHR ''e'' \<or> c = CHR ''E''
                        then (let (eneg, ds) = split_sign cs
                              in if ds \<noteq> [] \<and> list_all is_digit ds
                                 then Some (decimal_value neg ip fp
                                        (if eneg then - int (nat_of_digits ds) else int (nat_of_digits ds)))
                                 else None)
                        else None))"

definition py_float :: "string \<Rightarrow> py_error + pyfloat" where
  "py_float s = (case Option.bind (underscores (CHR 0x00) s) float_inner of
                   None \<Rightarrow> Inl ValueError | Some v \<Rightarrow> Inr v)"

section \<open>get\_rating\_number\<close>

definition ratings :: "(string \<times> int) list" where
  "ratings = [(''One'', 1), (''Two'', 2), (''Three'', 3), (''Four'', 4), (''Five'', 5)]"

definition get_rating_number :: "string \<Rightarrow> int" where
  "get_rating_number rating_class = dict_get ratings rating_class 0"

section \<open>The parsed document\<close>

text \<open>
  The tree that \<^verbatim>\<open>BeautifulSoup(content, 'html.parser')\<close> builds: a tag with
  its name, its attribute dictionary and its contents, or a string. The parsing of the
  bytes into the tree is the library's and is not modelled; the network hands the tree
  over. The soup object itself is a tag (named \<^verbatim>\<open>[document]\<close>) whose contents are
  the top-level nodes.
\<close>

datatype node =
    Tag string "(string \<times> string) list" "node list"
  | NavigableString string

fun descendants :: "node \<Rightarrow> node list" where
  "descendants (Tag name attrs contents) = concat (map (\<lambda>c. c # descendants c) contents)"
| "descendants (NavigableString s) = []"

fun get_text :: "node \<Rightarrow> string" where
  "get_text (Tag name attrs contents) = concat (map get_text contents)"
| "get_text (NavigableString s) = s"

fun contents :: "node \<Rightarrow> node list" where
  "contents (Tag name attrs cs) = cs"
| "contents (NavigableString s) = []"

fun attr :: "node \<Rightarrow> string \<Rightarrow> string option" where
  "attr (Tag name attrs cs) k = map_of attrs k"
| "attr (NavigableString s) k = None"

text \<open>The value of the multi-valued attribute \<^verbatim>\<open>class\<close> is the list of its tokens.\<close>

definition class_list :: "node \<Rightarrow> string list option" where
  "class_list t = map_option (split_space []) (attr t ''class'')"

definition join_space :: "string list \<Rightarrow> string" where
  "join_space ws = (case ws of [] \<Rightarrow> [] | w # r \<Rightarrow> w @ concat (map (\<lambda>x. CHR '' '' # x) r))"

text \<open>
  The filter of \<^verbatim>\<open>find(name, class_=c)\<close>: a tag of that name; with a class, one
  of its class tokens is \<open>c\<close>, or its tokens joined by single blanks are \<open>c\<close>.
\<close>

fun is_tag :: "string \<Rightarrow> node \<Rightarrow> bool" where
  "is_tag name (Tag n attrs cs) = (n = name)"
| "is_tag name (NavigableString s) = False"

definition has_class :: "string \<Rightarrow> node \<Rightarrow> bool" where
  "has_class c t = (case class_list t of None \<Rightarrow> False
                    | Some toks \<Rightarrow> c \<in> set toks \<or> join_space toks = c)"

definition matches :: "string \<Rightarrow> string option \<Rightarrow> node \<Rightarrow> bool" where
  "matches name cls t = (is_tag name t \<and> (case cls of None \<Rightarrow> True | Some c \<Rightarrow> has_class c t))"

definition find_all :: "string \<Rightarrow> string option \<Rightarrow> node \<Rightarrow> node list" where
  "find_all name cls t = filter (matches name cls) (descendants t)"

definition find_bs :: "string \<Rightarrow> string option \<Rightarrow> node \<Rightarrow> node option" where
  "find_bs name cls t = (case find_all name cls t of [] \<Rightarrow> None | d # ds \<Rightarrow> Some d)"

text \<open>\<^verbatim>\<open>find(name, recursive=False)\<close> looks at the direct children only.\<close>

definition find_child :: "string \<Rightarrow> node \<Rightarrow> node option" where
  "find_child name t = find (matches name None) (contents t)"

text \<open>
  The operations the scraper applies to the result of a \<^verbatim>\<open>find\<close>, which is
  \<^verbatim>\<open>None\<close> when nothing matched: \<^verbatim>\<open>x.text\<close>, \<^verbatim>\<open>x.a\<close>,
  \<^verbatim>\<open>x.find_all(..)\<close>, \<^verbatim>\<open>x[key]\<close>, and \<^verbatim>\<open>xs[i]\<close> on a list.
\<close>

definition dot_text :: "node option \<Rightarrow> py_error + string" where
  "dot_text x = (case x of None \<Rightarrow> Inl AttributeError | Some t \<Rightarrow> Inr (get_text t))"

definition dot_tag :: "node option \<Rightarrow> string \<Rightarrow> py_error + node option" where
  "dot_tag x name = (case x of None \<Rightarrow> Inl AttributeError | Some t \<Rightarrow> Inr (find_bs name None t))"

definition dot_find_all :: "node option \<Rightarrow> string \<Rightarrow> py_error + node list" where
  "dot_find_all x name =
     (case x of None \<Rightarrow> Inl AttributeError | Some t \<Rightarrow> Inr (find_all name None t))"

definition subscript :: "node option \<Rightarrow> string \<Rightarrow> py_error + string" where
  "subscript x k =
     (case x of None \<Rightarrow> Inl TypeError
      | Some t \<Rightarrow> (case attr t k of None \<Rightarrow> Inl (KeyError k) | Some v \<Rightarrow> Inr v))"

definition subscript_class :: "node option \<Rightarrow> py_error + string list" where
  "subscript_class x =
     (case x of None \<Rightarrow> Inl TypeError
      | Some t \<Rightarrow> (case class_list t of None \<Rightarrow> Inl (KeyError ''class'') | Some v \<Rightarrow> Inr v))"

definition list_item :: "'a list \<Rightarrow> nat \<Rightarrow> py_error + 'a" where
  "list_item xs i = (if i < length xs then Inr (xs ! i) else Inl IndexError)"

section \<open>The network and the log of effects\<close>

text \<open>
  \<^verbatim>\<open>requests.get(url)\<close> either raises or returns a response with a status code
  and a body. What the network answers may change from one call to the next, so it is a
  function of the number of calls made before and of the URL. An argument that is not a
  string has no URL scheme and makes the call raise. Every call of
  \<^verbatim>\<open>requests.get\<close>, every \<^verbatim>\<open>time.sleep(0.5)\<close> and every file written is
  appended to a log.
\<close>

datatype pyval = PyStr string | PyInt int | PyFloat pyfloat

type_synonym row = "(string \<times> pyval) list"

datatype response = Failed | Response int node

datatype event = Get pyval | Sleep | ToCsv string "row list"

type_synonym network = "nat \<Rightarrow> string \<Rightarrow> response"

fun is_Get :: "event \<Rightarrow> bool" where
  "is_Get (Get url) = True"
| "is_Get e = False"

definition calls :: "event list \<Rightarrow> nat" where
  "calls lg = length (filter is_Get lg)"

definition requests_get ::
  "network \<Rightarrow> event list \<Rightarrow> pyval \<Rightarrow> (py_error + int \<times> node) \<times> event list" where
  "requests_get net lg url =
     (case url of
        PyStr u \<Rightarrow> (case net (calls lg) u of
                      Failed \<Rightarrow> Inl ConnectionError
                    | Response status soup \<Rightarrow> Inr (status, soup))
      | PyInt i \<Rightarrow> Inl MissingSchema
      | PyFloat f \<Rightarrow> Inl MissingSchema,
      lg @ [Get url])"

text \<open>\<^verbatim>\<open>response.raise_for_status()\<close> raises for the status codes 400 to 599.\<close>

definition raise_for_status :: "int \<Rightarrow> py_error + unit" where
  "raise_for_status status = (if 400 \<le> status \<and> status < 600 then Inl (HTTPError status) else Inr ())"

section \<open>scrape\_books\<close>

definition pound :: string where
  "pound = [CHR 0xC2, CHR 0xA3]"

fun str_nat :: "nat \<Rightarrow> string" where
  "str_nat n = (if n < 10 then [''0123456789'' ! n]
                else str_nat (n div 10) @ [''0123456789'' ! (n mod 10)])"

declare str_nat.simps [simp del]

definition str_int :: "int \<Rightarrow> string" where
  "str_int i = (if i < 0 then CHR ''-'' # str_nat (nat (- i)) else str_nat (nat i))"

definition page_url :: "int \<Rightarrow> string" where
  "page_url page = ''http://books.toscrape.com/catalogue/page-'' @ str_int page @ ''.html''"

text \<open>
  The price of a book from the text of its price node:
  \<^verbatim>\<open>float(price_text.replace(POUND, ''))\<close>, where \<^verbatim>\<open>POUND\<close> stands for the
  string of the one character U+00A3, the pound sign.\<close>

definition price_of_text :: "string \<Rightarrow> py_error + pyfloat" where
  "price_of_text price_text = py_float (str_replace pound [] price_text)"

text \<open>The body of the loop over the books of a page, up to the dictionary it appends.\<close>

definition parse_book :: "node \<Rightarrow> py_error + row" where
  "parse_book book =
     bnd (dot_tag (find_bs ''h3'' None book) ''a'') (\<lambda>a.
     bnd (subscript a ''title'') (\<lambda>title.
     bnd (dot_text (find_bs ''p'' (Some ''price_color'') book)) (\<lambda>price_text.
     bnd (price_of_text price_text) (\<lambda>price.
     bnd (subscript_class (find_bs ''p'' (Some ''star-rating'') book)) (\<lambda>classes.
     bnd (list_item classes 1) (\<lambda>rating_class.
     let rating = get_rating_number rating_class in
     bnd (dot_text (find_bs ''p'' (Some ''instock availability'') book)) (\<lambda>availability_text.
     let availability = strip availability_text in
     bnd (subscript (find_bs ''img'' None book) ''src'') (\<lambda>img_src.
     let img_url = ''http://books.toscrape.com/'' @ str_replace ''../'' [] img_src in
     bnd (dot_tag (find_bs ''h3'' None book) ''a'') (\<lambda>a'.
     bnd (subscript a' ''href'') (\<lambda>href.
     let book_url = ''http://books.toscrape.com/catalogue/'' @ str_replace ''../'' [] href in
     Inr [(''titulo'', PyStr title),
          (''precio'', PyFloat price),
          (''rating'', PyInt rating),
          (''disponibilidad'', PyStr availability),
          (''imagen_url'', PyStr img_url),
          (''libro_url'', PyStr book_url)]))))))))))"

text \<open>
  The loop \<^verbatim>\<open>for book in books\<close> appends to \<^verbatim>\<open>all_books\<close>. It has no
  handler of its own: the first book that raises ends the loop, and what was appended
  before stays in the list.
\<close>

fun book_loop :: "node list \<Rightarrow> row list \<Rightarrow> py_error option \<times> row list" where
  "book_loop [] all_books = (None, all_books)"
| "book_loop (book # books) all_books =
     (case parse_book book of
        Inl e \<Rightarrow> (Some e, all_books)
      | Inr r \<Rightarrow> book_loop books (all_books @ [r]))"

record walk =
  all_books :: "row list"
  log :: "event list"

text \<open>
  One iteration of \<^verbatim>\<open>for page in range(1, num_pages + 1)\<close>. \<open>page_try\<close> is the
  \<^verbatim>\<open>try\<close> block, from the request to the pause, with the exception it raised if
  any. The handler \<^verbatim>\<open>except Exception\<close> prints and continues with the next page,
  so the iteration \<open>scrape_page\<close> keeps the state the block left and drops the exception.
\<close>

definition page_try :: "network \<Rightarrow> walk \<Rightarrow> int \<Rightarrow> py_error option \<times> walk" where
  "page_try net w page =
     (let url = page_url page;
          (response, log1) = requests_get net (log w) (PyStr url);
          w1 = w\<lparr>log := log1\<rparr>
      in case bnd response (\<lambda>(status, soup). bnd (raise_for_status status) (\<lambda>u. Inr soup)) of
           Inl e \<Rightarrow> (Some e, w1)
         | Inr soup \<Rightarrow>
             (case book_loop (find_all ''article'' (Some ''product_pod'') soup) (all_books w1) of
                (Some e, books) \<Rightarrow> (Some e, w1\<lparr>all_books := books\<rparr>)
              | (None, books) \<Rightarrow> (None, \<lparr>all_books = books, log = log1 @ [Sleep]\<rparr>)))"

definition scrape_page :: "network \<Rightarrow> walk \<Rightarrow> int \<Rightarrow> walk" where
  "scrape_page net w page = snd (page_try net w page)"

section \<open>The data frame\<close>

text \<open>
  \<^verbatim>\<open>pd.DataFrame(list_of_dicts)\<close>: the columns are the keys in the order of their
  first appearance, so an empty list gives a frame without columns. \<^verbatim>\<open>df[c]\<close>
  raises \<^verbatim>\<open>KeyError\<close> for a column that does not exist.
\<close>

record dataframe =
  columns :: "string list"
  records :: "row list"

definition DataFrame :: "row list \<Rightarrow> dataframe" where
  "DataFrame data = \<lparr>columns = rev (remdups (rev (concat (map (map fst) data)))), records = data\<rparr>"

definition len_df :: "dataframe \<Rightarrow> nat" where
  "len_df df = length (records df)"

definition getitem_df :: "dataframe \<Rightarrow> string \<Rightarrow> py_error + pyval list" where
  "getitem_df df c =
     (if c \<in> set (columns df) then Inr (map (\<lambda>r. dict_get r c (PyFloat NaN)) (records df))
      else Inl (KeyError c))"

definition head_df :: "nat \<Rightarrow> dataframe \<Rightarrow> dataframe" where
  "head_df n df = df\<lparr>records := take n (records df)\<rparr>"

definition getitem_row :: "dataframe \<Rightarrow> row \<Rightarrow> string \<Rightarrow> py_error + pyval" where
  "getitem_row df r c =
     (if c \<in> set (columns df) then Inr (dict_get r c (PyFloat NaN)) else Inl (KeyError c))"

definition scrape_books :: "network \<Rightarrow> int \<Rightarrow> event list \<Rightarrow> dataframe \<times> event list" where
  "scrape_books net num_pages lg =
     (let w = foldl (scrape_page net) \<lparr>all_books = [], log = lg\<rparr> [1..num_pages]
      in (DataFrame (all_books w), log w))"

text \<open>
  What one page adds to the catalog, as a function of the answer to its request: the
  records appended by the \<^verbatim>\<open>try\<close> block, none when the request or the status
  check raised.
\<close>

definition page_books :: "response \<Rightarrow> row list" where
  "page_books r =
     (case r of
        Failed \<Rightarrow> []
      | Response status soup \<Rightarrow>
          (case raise_for_status status of
             Inl e \<Rightarrow> []
           | Inr u \<Rightarrow> snd (book_loop (find_all ''article'' (Some ''product_pod'') soup) [])))"

section \<open>scrape\_book\_details\<close>

definition sin_descripcion :: string where
  "sin_descripcion = ''Sin descripci'' @ [CHR 0xC3, CHR 0xB3] @ ''n''"

text \<open>The loop over the rows of the product table fills the dictionary \<^verbatim>\<open>product_info\<close>.\<close>

fun table_loop :: "node list \<Rightarrow> (string \<times> string) list \<Rightarrow> py_error + (string \<times> string) list" where
  "table_loop [] product_info = Inr product_info"
| "table_loop (row # rows) product_info =
     bnd (dot_text (find_bs ''th'' None row)) (\<lambda>header.
     bnd (dot_text (find_bs ''td'' None row)) (\<lambda>value.
     table_loop rows (AList.update header value product_info)))"

text \<open>The \<^verbatim>\<open>try\<close> block from the parsed document on.\<close>

definition parse_details :: "node \<Rightarrow> py_error + row" where
  "parse_details soup =
     bnd (dot_find_all (find_bs ''ul'' (Some ''breadcrumb'') soup) ''a'') (\<lambda>links.
     bnd (list_item links 2) (\<lambda>link.
     let category = get_text link in
     bnd (case find_bs ''article'' (Some ''product_page'') soup of
            None \<Rightarrow> Inl AttributeError
          | Some article \<Rightarrow> Inr (find_child ''p'' article)) (\<lambda>description_tag.
     let description = (case description_tag of
                          Some t \<Rightarrow> get_text t
                        | None \<Rightarrow> sin_descripcion);
         table = find_bs ''table'' (Some ''table-striped'') soup
     in
     bnd (case table of
            None \<Rightarrow> Inr []
          | Some t \<Rightarrow> table_loop (find_all ''tr'' None t) []) (\<lambda>product_info.
     Inr [(''categoria'', PyStr category),
          (''descripcion'', PyStr description),
          (''upc'', PyStr (dict_get product_info ''UPC'' [])),
          (''impuestos'', PyStr (dict_get product_info ''Tax'' [])),
          (''stock'', PyStr (dict_get product_info ''Availability'' []))]))))"

text \<open>
  The whole function: the handler \<^verbatim>\<open>except Exception\<close> turns every exception of
  the block into the result \<^verbatim>\<open>None\<close>.
\<close>

definition details_try :: "network \<Rightarrow> event list \<Rightarrow> pyval \<Rightarrow> (py_error + row) \<times> event list" where
  "details_try net lg book_url =
     (let (response, log1) = requests_get net lg book_url
      in (bnd response (\<lambda>(status, soup).
          bnd (raise_for_status status) (\<lambda>u. parse_details soup)), log1))"

definition scrape_book_details :: "network \<Rightarrow> event list \<Rightarrow> pyval \<Rightarrow> row option \<times> event list" where
  "scrape_book_details net lg book_url =
     (case details_try net lg book_url of
        (Inl e, log1) \<Rightarrow> (None, log1)
      | (Inr details, log1) \<Rightarrow> (Some details, log1))"

section \<open>main\<close>

text \<open>
  The statistics. \<^verbatim>\<open>Series.mean\<close>, \<^verbatim>\<open>min\<close> and \<^verbatim>\<open>max\<close> skip NaN and
  give NaN when nothing is left; a column holding a string is not numeric. The
  arithmetic is exact where Python rounds.
\<close>

fun to_float :: "pyval \<Rightarrow> py_error + pyfloat" where
  "to_float (PyFloat f) = Inr f"
| "to_float (PyInt i) = Inr (Finite (of_int i))"
| "to_float (PyStr s) = Inl TypeError"

fun to_floats :: "pyval list \<Rightarrow> py_error + pyfloat list" where
  "to_floats [] = Inr []"
| "to_floats (v # vs) = bnd (to_float v) (\<lambda>f. bnd (to_floats vs) (\<lambda>fs. Inr (f # fs)))"

fun add_float :: "pyfloat \<Rightarrow> pyfloat \<Rightarrow> pyfloat" where
  "add_float (Finite a) (Finite b) = Finite (a + b)"
| "add_float NaN y = NaN"
| "add_float x NaN = NaN"
| "add_float PosInf NegInf = NaN"
| "add_float NegInf PosInf = NaN"
| "add_float PosInf y = PosInf"
| "add_float x PosInf = PosInf"
| "add_float NegInf y = NegInf"
| "add_float x NegInf = NegInf"

fun div_float :: "pyfloat \<Rightarrow> nat \<Rightarrow> pyfloat" where
  "div_float (Finite a) n = Finite (a / of_nat n)"
| "div_float x n = x"

fun less_float :: "pyfloat \<Rightarrow> pyfloat \<Rightarrow> bool" where
  "less_float (Finite a) (Finite b) = (a < b)"
| "less_float NegInf (Finite b) = True"
| "less_float NegInf PosInf = True"
| "less_float (Finite a) PosInf = True"
| "less_float x y = False"

definition dropna :: "pyfloat list \<Rightarrow> pyfloat list" where
  "dropna fs = filter (\<lambda>f. f \<noteq> NaN) fs"

definition mean_floats :: "pyfloat list \<Rightarrow> pyfloat" where
  "mean_floats fs =
     (let xs = dropna fs
      in if xs = [] then NaN else div_float (foldl add_float (Finite 0) xs) (length xs))"

definition min_floats :: "pyfloat list \<Rightarrow> pyfloat" where
  "min_floats fs =
     (case dropna fs of [] \<Rightarrow> NaN
      | x # xs \<Rightarrow> foldl (\<lambda>m y. if less_float y m then y else m) x xs)"

definition max_floats :: "pyfloat list \<Rightarrow> pyfloat" where
  "max_floats fs =
     (case dropna fs of [] \<Rightarrow> NaN
      | x # xs \<Rightarrow> foldl (\<lambda>m y. if less_float m y then y else m) x xs)"

definition series_mean :: "pyval list \<Rightarrow> py_error + pyfloat" where
  "series_mean vs = bnd (to_floats vs) (\<lambda>fs. Inr (mean_floats fs))"

definition series_min :: "pyval list \<Rightarrow> py_error + pyfloat" where
  "series_min vs = bnd (to_floats vs) (\<lambda>fs. Inr (min_floats fs))"

definition series_max :: "pyval list \<Rightarrow> py_error + pyfloat" where
  "series_max vs = bnd (to_floats vs) (\<lambda>fs. Inr (max_floats fs))"

record stats =
  total_libros :: nat
  precio_promedio :: pyfloat
  precio_minimo :: pyfloat
  precio_maximo :: pyfloat
  rating_promedio :: pyfloat

text \<open>The dictionary \<^verbatim>\<open>stats\<close> of \<^verbatim>\<open>main\<close>, its entries evaluated in order.\<close>

definition compute_stats :: "dataframe \<Rightarrow> py_error + stats" where
  "compute_stats df_books =
     (let total = len_df df_books in
      bnd (bnd (getitem_df df_books ''precio'') series_mean) (\<lambda>p_mean.
      bnd (bnd (getitem_df df_books ''precio'') series_min) (\<lambda>p_min.
      bnd (bnd (getitem_df df_books ''precio'') series_max) (\<lambda>p_max.
      bnd (bnd (getitem_df df_books ''rating'') series_mean) (\<lambda>r_mean.
      Inr \<lparr>total_libros = total, precio_promedio = p_mean, precio_minimo = p_min,
           precio_maximo = p_max, rating_promedio = r_mean\<rparr>)))))"

text \<open>
  The dictionary display \<^verbatim>\<open>{'titulo': .., 'precio': .., 'rating': .., **details}\<close>:
  the entries of \<^verbatim>\<open>details\<close> are stored one after the other into the dictionary of
  the three entries.
\<close>

definition detailed_book :: "pyval \<Rightarrow> pyval \<Rightarrow> pyval \<Rightarrow> row \<Rightarrow> row" where
  "detailed_book titulo precio rating details =
     foldl (\<lambda>d (k, v). AList.update k v d)
       [(''titulo'', titulo), (''precio'', precio), (''rating'', rating)] details"

text \<open>
  The loop \<^verbatim>\<open>for idx, row in df_books.head(10).iterrows()\<close> over the rows it is
  given. It has no handler: an exception of the body leaves \<^verbatim>\<open>main\<close>.
\<close>

fun detail_loop ::
  "network \<Rightarrow> dataframe \<Rightarrow> row list \<Rightarrow> row list \<Rightarrow> event list
   \<Rightarrow> py_error + row list \<times> event list" where
  "detail_loop net df [] detailed_books lg = Inr (detailed_books, lg)"
| "detail_loop net df (row # rows) detailed_books lg =
     bnd (getitem_row df row ''libro_url'') (\<lambda>book_url.
     let (details, log1) = scrape_book_details net lg book_url in
     bnd (case details of
            None \<Rightarrow> Inr detailed_books
          | Some d \<Rightarrow>
              if d = [] then Inr detailed_books
              else bnd (getitem_row df row ''titulo'') (\<lambda>titulo.
                   bnd (getitem_row df row ''precio'') (\<lambda>precio.
                   bnd (getitem_row df row ''rating'') (\<lambda>rating.
                   Inr (detailed_books @ [detailed_book titulo precio rating d])))))
         (\<lambda>detailed_books'. detail_loop net df rows detailed_books' (log1 @ [Sleep])))"

definition main :: "network \<Rightarrow> py_error + stats \<times> row list \<times> event list" where
  "main net =
     (let (df_books, log1) = scrape_books net 5 [];
          log2 = log1 @ [ToCsv ''books_data.csv'' (records df_books)]
      in bnd (compute_stats df_books) (\<lambda>stats.
         bnd (detail_loop net df_books (records (head_df 10 df_books)) [] log2)
           (\<lambda>(detailed_books, log3).
              Inr (stats, detailed_books,
                   if detailed_books \<noteq> []
                   then log3 @ [ToCsv ''books_detailed.csv'' detailed_books] else log3))))"

section \<open>Example documents\<close>

text \<open>
  A book of a catalog page as the site marks it up, with a given title and price text,
  the record the scraper makes of it, and a page of such books.
\<close>

definition book_node :: "string \<Rightarrow> string \<Rightarrow> node" where
  "book_node title price_text =
     Tag ''article'' [(''class'', ''product_pod'')]
       [Tag ''div'' [(''class'', ''image_container'')]
          [Tag ''a'' [(''href'', ''a/index.html'')]
             [Tag ''img'' [(''src'', ''../media/a.jpg''), (''class'', ''thumbnail'')] []]],
        Tag ''p'' [(''class'', ''star-rating Three'')] [],
        Tag ''h3'' [] [Tag ''a'' [(''href'', ''a/index.html''), (''title'', title)]
                         [NavigableString title]],
        Tag ''div'' [(''class'', ''product_price'')]
          [Tag ''p'' [(''class'', ''price_color'')] [NavigableString price_text],
           Tag ''p'' [(''class'', ''instock availability'')] [NavigableString ''In stock'']]]"

definition book_record :: "string \<Rightarrow> pyfloat \<Rightarrow> row" where
  "book_record title price =
     [(''titulo'', PyStr title),
      (''precio'', PyFloat price),
      (''rating'', PyInt 3),
      (''disponibilidad'', PyStr ''In stock''),
      (''imagen_url'', PyStr ''http://books.toscrape.com/media/a.jpg''),
      (''libro_url'', PyStr ''http://books.toscrape.com/catalogue/a/index.html'')]"

definition catalog_page :: "node list \<Rightarrow> node" where
  "catalog_page books = Tag ''[document]'' [] [Tag ''html'' [] [Tag ''body'' [] books]]"

text \<open>A page of three books whose second book has a price text that is no number.\<close>

definition three_books :: node where
  "three_books =
     catalog_page [book_node ''A'' (pound @ ''1.00''), book_node ''B'' ''free'',
                   book_node ''C'' (pound @ ''3.00'')]"


text \<open>
  A detail page as the site marks it up: the breadcrumb with its three links, and the
  product article with given direct paragraphs and given rows of the product table.
\<close>

definition breadcrumb :: node where
  "breadcrumb =
     Tag ''ul'' [(''class'', ''breadcrumb'')]
       [Tag ''li'' [] [Tag ''a'' [(''href'', ''../../index.html'')] [NavigableString ''Home'']],
        Tag ''li'' [] [Tag ''a'' [(''href'', ''../category/books_1/index.html'')] [NavigableString ''Books'']],
        Tag ''li'' [] [Tag ''a'' [(''href'', ''../category/books/poetry_23/index.html'')] [NavigableString ''Poetry'']],
        Tag ''li'' [(''class'', ''active'')] [NavigableString ''A'']]"

definition detail_page :: "node list \<Rightarrow> node list \<Rightarrow> node" where
  "detail_page paragraphs table_rows =
     Tag ''[document]'' []
       [breadcrumb,
        Tag ''article'' [(''class'', ''product_page'')]
          (Tag ''h1'' [] [NavigableString ''A''] # paragraphs
           @ [Tag ''table'' [(''class'', ''table table-striped'')] table_rows])]"

definition table_row :: "string \<Rightarrow> string \<Rightarrow> node" where
  "table_row header value =
     Tag ''tr'' [] [Tag ''th'' [] [NavigableString header], Tag ''td'' [] [NavigableString value]]"

text \<open>
  A detail page without a description paragraph and without an availability row, the
  dictionary the scraper makes of it, and a network that answers the first request with
  this page and fails every later one.
\<close>

definition good_detail :: node where
  "good_detail = detail_page [] [table_row ''UPC'' ''a897fe39b1053632'', table_row ''Tax'' ''0.00'']"

definition good_details :: row where
  "good_details =
     [(''categoria'', PyStr ''Poetry''),
      (''descripcion'', PyStr sin_descripcion),
      (''upc'', PyStr ''a897fe39b1053632''),
      (''impuestos'', PyStr ''0.00''),
      (''stock'', PyStr [])]"

definition first_only :: network where
  "first_only k url = (if k = 0 then Response 200 good_detail else Failed)"

section \<open>Lemmas about the loops\<close>

lemma book_loop_acc:
  "book_loop bs acc = (fst (book_loop bs []), acc @ snd (book_loop bs []))"
proof (induction bs arbitrary: acc)
  case Nil
  show ?case by simp
next
  case (Cons b bs)
  show ?case
  proof (cases "parse_book b")
    case (Inl e)
    then show ?thesis by simp
  next
    case (Inr r)
    have "book_loop (b # bs) acc = book_loop bs (acc @ [r])" using Inr by simp
    also have "\<dots> = (fst (book_loop bs []), (acc @ [r]) @ snd (book_loop bs []))"
      by (rule Cons.IH)
    finally have 1: "book_loop (b # bs) acc = (fst (book_loop bs []), acc @ r # snd (book_loop bs []))"
      by simp
    have "book_loop (b # bs) [] = book_loop bs [r]" using Inr by simp
    also have "\<dots> = (fst (book_loop bs []), [r] @ snd (book_loop bs []))"
      by (rule Cons.IH)
    finally have 2: "book_loop (b # bs) [] = (fst (book_loop bs []), r # snd (book_loop bs []))"
      by simp
    show ?thesis by (simp only: 1 2 fst_conv snd_conv)
  qed
qed

lemma book_loop_rows:
  "snd (book_loop bs acc) =
     acc @ map (\<lambda>b. projr (parse_book b)) (takeWhile (\<lambda>b. \<not> isl (parse_book b)) bs)"
proof (induction bs arbitrary: acc)
  case Nil
  show ?case by simp
next
  case (Cons b bs)
  show ?case by (cases "parse_book b") (simp_all add: Cons.IH)
qed

lemma book_loop_raised:
  "fst (book_loop bs acc) =
     (case dropWhile (\<lambda>b. \<not> isl (parse_book b)) bs of
        [] \<Rightarrow> None | b # rest \<Rightarrow> Some (projl (parse_book b)))"
proof (induction bs arbitrary: acc)
  case Nil
  show ?case by simp
next
  case (Cons b bs)
  show ?case by (cases "parse_book b") (simp_all add: Cons.IH)
qed

lemma calls_append: "calls (lg @ lg') = calls lg + calls lg'"
  by (simp add: calls_def)

lemma requests_get_log: "snd (requests_get net lg url) = lg @ [Get url]"
  by (simp add: requests_get_def)

lemma scrape_page_gets:
  "filter is_Get (log (scrape_page net w p)) = filter is_Get (log w) @ [Get (PyStr (page_url p))]"
  by (auto simp: scrape_page_def page_try_def requests_get_def Let_def bnd_def
           split: response.splits sum.splits prod.splits option.splits)

lemma scrape_page_books:
  "all_books (scrape_page net w p) = all_books w @ page_books (net (calls (log w)) (page_url p))"
proof -
  have acc: "\<And>bs. snd (book_loop bs (all_books w)) = all_books w @ snd (book_loop bs [])"
    by (subst book_loop_acc) simp
  show ?thesis
    by (auto simp: scrape_page_def page_try_def requests_get_def Let_def bnd_def page_books_def acc
                   dest: arg_cong [where f = snd]
           split: response.splits sum.splits prod.splits option.splits)
qed

lemma calls_gets: "calls lg = length (filter is_Get lg)"
  by (simp add: calls_def)

lemma upto_1_Suc: "[1..int (Suc m)] = [1..int m] @ [int m + 1]"
  using upto_rec2 [of 1 "int (Suc m)"] by (simp add: add.commute)

lemma upto_1_plus: "[1..1 + int m] = [1..int m] @ [int m + 1]"
  using upto_rec2 [of 1 "1 + int m"] by (simp add: add.commute)

lemma length_upto_1: "length [1..int m] = m"
  by simp

lemma walk_pages:
  "filter is_Get (log (foldl (scrape_page net) w [1..int m]))
     = filter is_Get (log w) @ map (\<lambda>k. Get (PyStr (page_url k))) [1..int m]
   \<and> all_books (foldl (scrape_page net) w [1..int m])
     = all_books w @ concat (map (\<lambda>k. page_books (net (calls (log w) + nat (k - 1)) (page_url k)))
                              [1..int m])"
proof (induction m)
  case 0
  show ?case by simp
next
  case (Suc m)
  let ?w' = "foldl (scrape_page net) w [1..int m]"
  have gets: "filter is_Get (log ?w') = filter is_Get (log w) @ map (\<lambda>k. Get (PyStr (page_url k))) [1..int m]"
    using Suc.IH by blast
  have books: "all_books ?w' = all_books w @ concat (map (\<lambda>k. page_books (net (calls (log w) + nat (k - 1)) (page_url k))) [1..int m])"
    using Suc.IH by blast
  have n: "calls (log ?w') = calls (log w) + m"
    by (simp add: calls_gets gets)
  have step: "foldl (scrape_page net) w [1..int (Suc m)] = scrape_page net ?w' (int m + 1)"
    by (simp only: upto_1_Suc foldl_append foldl.simps)
  show ?case
    unfolding step
    by (simp add: scrape_page_gets scrape_page_books gets books n upto_1_plus)
qed

lemma walk_int:
  "filter is_Get (log (foldl (scrape_page net) w [1..n]))
     = filter is_Get (log w) @ map (\<lambda>k. Get (PyStr (page_url k))) [1..n]
   \<and> all_books (foldl (scrape_page net) w [1..n])
     = all_books w @ concat (map (\<lambda>k. page_books (net (calls (log w) + nat (k - 1)) (page_url k)))
                              [1..n])"
proof (cases "0 \<le> n")
  case True
  then obtain m where m: "n = int m" using nonneg_int_cases by blast
  show ?thesis unfolding m by (rule walk_pages)
next
  case False
  then have "[1..n] = []" by simp
  then show ?thesis by simp
qed

subsection \<open>Evaluation of the example documents\<close>

lemma bnd_simps: "bnd (Inl e) f = Inl e" "bnd (Inr x) f = f x"
  by (simp_all add: bnd_def)

lemma tokens:
  "split_space [] ''product_pod'' = [''product_pod'']"
  "split_space [] ''image_container'' = [''image_container'']"
  "split_space [] ''thumbnail'' = [''thumbnail'']"
  "split_space [] ''star-rating Three'' = [''star-rating'', ''Three'']"
  "split_space [] ''product_price'' = [''product_price'']"
  "split_space [] ''price_color'' = [''price_color'']"
  "split_space [] ''instock availability'' = [''instock'', ''availability'']"
  by code_simp+

lemmas soup_eval =
  find_bs_def find_all_def matches_def has_class_def class_list_def join_space_def
  dot_text_def dot_tag_def  dot_find_all_def subscript_def subscript_class_def
  list_item_def find_child_def

lemma replace_a: "str_replace ''../'' [] ''../media/a.jpg'' = ''media/a.jpg''"
  by code_simp

lemma replace_b: "str_replace ''../'' [] ''a/index.html'' = ''a/index.html''"
  by code_simp

lemma strip_in_stock: "strip ''In stock'' = ''In stock''"
  by code_simp

lemma parse_book_node:
  "parse_book (book_node title price_text) =
     bnd (price_of_text price_text) (\<lambda>price. Inr (book_record title price))"
  by (simp add: parse_book_def book_node_def book_record_def soup_eval bnd_simps tokens
        get_rating_number_def dict_get_def ratings_def replace_a replace_b strip_in_stock)

lemma book_node_matches: "matches ''article'' (Some ''product_pod'') (book_node t p)"
  by (simp add: book_node_def soup_eval tokens)

lemma book_node_inner:
  "filter (matches ''article'' (Some ''product_pod'')) (descendants (book_node t p)) = []"
  by (simp add: book_node_def soup_eval tokens)

lemma find_all_catalog_page:
  "find_all ''article'' (Some ''product_pod'') (catalog_page (map (\<lambda>(t, p). book_node t p) tps))
     = map (\<lambda>(t, p). book_node t p) tps"
proof -
  have "filter (matches ''article'' (Some ''product_pod''))
          (concat (map (\<lambda>c. c # descendants c) (map (\<lambda>(t, p). book_node t p) tps)))
        = map (\<lambda>(t, p). book_node t p) tps"
    by (induction tps) (simp_all add: book_node_matches book_node_inner split_beta)
  then show ?thesis
    by (simp add: find_all_def catalog_page_def matches_def)
qed

subsection \<open>The price text\<close>

lemmas float_eval =
  py_float_def float_inner_def strip_with_def lstrip.simps space_len_def c_space_def
  unicode_space_def split_sign_def ascii_lower_def is_digit_def decimal_value_def
  nat_of_digits_def digit_val_def

lemma replace_pound_Nil: "str_replace pound [] [] = []"
  by (simp add: str_replace.simps pound_def)

lemma replace_pound_Cons:
  "str_replace pound [] (x # s) =
     (if take 2 (x # s) = pound then str_replace pound [] (drop 2 (x # s))
      else x # str_replace pound [] s)"
  by (subst str_replace.simps) (simp add: pound_def)

lemma pound_facts:
  "take 2 (pound @ b) = pound" "drop 2 (pound @ b) = b"
  "take 2 [x] \<noteq> pound" "take 2 (x # pound @ b) \<noteq> pound"
  by (simp_all add: pound_def)

lemma replace_pound_skip:
  "take 2 (x # s) = pound \<Longrightarrow> str_replace pound [] (x # s) = str_replace pound [] (drop 2 (x # s))"
  by (subst replace_pound_Cons) simp

lemma replace_pound_keep:
  "take 2 (x # s) \<noteq> pound \<Longrightarrow> str_replace pound [] (x # s) = x # str_replace pound [] s"
  by (subst replace_pound_Cons) simp

lemma replace_pound_head: "str_replace pound [] (pound @ b) = str_replace pound [] b"
proof (cases "pound @ b")
  case Nil
  then show ?thesis by (simp add: pound_def)
next
  case (Cons x s)
  then show ?thesis
    using replace_pound_skip [of x s] pound_facts(1,2) [of b] by simp
qed

lemma replace_pound_glyph:
  "str_replace pound [] (a @ pound @ b) = str_replace pound [] a @ str_replace pound [] b"
proof (induction "length a" arbitrary: a rule: less_induct)
  case less
  show ?case
  proof (cases a)
    case Nil
    then show ?thesis
      by (simp add: replace_pound_Nil replace_pound_head)
  next
    case (Cons x a')
    note a = Cons
    show ?thesis
    proof (cases a')
      case Nil
      have "str_replace pound [] (x # pound @ b) = x # str_replace pound [] (pound @ b)"
        by (rule replace_pound_keep) (rule pound_facts)
      moreover have "str_replace pound [] [x] = [x]"
        using replace_pound_keep [of x "[]"] pound_facts(3) [of x]
        by (simp add: replace_pound_Nil)
      ultimately show ?thesis using a Nil
        by (simp add: replace_pound_head)
    next
      case (Cons y a'')
      show ?thesis
      proof (cases "[x, y] = pound")
        case True
        have "str_replace pound [] (x # y # a'' @ pound @ b) = str_replace pound [] (a'' @ pound @ b)"
          using replace_pound_skip [of x "y # a'' @ pound @ b"] True by simp
        moreover have "str_replace pound [] (x # y # a'') = str_replace pound [] a''"
          using replace_pound_skip [of x "y # a''"] True by simp
        ultimately show ?thesis using a Cons less [of a'']
          by simp
      next
        case False
        have "str_replace pound [] (x # y # a'' @ pound @ b)
                = x # str_replace pound [] (y # a'' @ pound @ b)"
          using replace_pound_keep [of x "y # a'' @ pound @ b"] False by simp
        moreover have "str_replace pound [] (x # y # a'') = x # str_replace pound [] (y # a'')"
          using replace_pound_keep [of x "y # a''"] False by simp
        ultimately show ?thesis using a Cons less [of a']
          by simp
      qed
    qed
  qed
qed

lemma price_examples:
  "price_of_text (pound @ ''1.00'') = Inr (Finite 1)"
  "price_of_text (pound @ ''3.00'') = Inr (Finite 3)"
  "price_of_text (pound @ ''-5.00'') = Inr (Finite (- 5))"
  "price_of_text (''5'' @ pound @ ''0'') = Inr (Finite 50)"
  "price_of_text ''free'' = Inl ValueError"
  by (simp_all add: price_of_text_def pound_def str_replace.simps float_eval)

lemma page_urls:
  "page_url 1 = ''http://books.toscrape.com/catalogue/page-1.html''"
  "page_url 2 = ''http://books.toscrape.com/catalogue/page-2.html''"
  by (simp_all add: page_url_def str_int_def str_nat.simps)

lemma upto_examples: "[1..1] = [1::int]" "[1..2] = [1, 2::int]"
  by (simp_all add: upto.simps)

lemma three_books_articles:
  "find_all ''article'' (Some ''product_pod'') three_books
     = [book_node ''A'' (pound @ ''1.00''), book_node ''B'' ''free'', book_node ''C'' (pound @ ''3.00'')]"
  using find_all_catalog_page [of "[(''A'', pound @ ''1.00''), (''B'', ''free''), (''C'', pound @ ''3.00'')]"]
  by (simp add: three_books_def)

lemma three_books_loop:
  "book_loop (find_all ''article'' (Some ''product_pod'') three_books) acc
     = (Some ValueError, acc @ [book_record ''A'' (Finite 1)])"
  by (simp add: three_books_articles parse_book_node price_examples bnd_simps)

lemma page_books_three: "page_books (Response 200 three_books) = [book_record ''A'' (Finite 1)]"
  by (simp add: page_books_def raise_for_status_def three_books_loop)

lemma failed_walk:
  "scrape_page (\<lambda>k url. Failed) w page = w\<lparr>log := log w @ [Get (PyStr (page_url page))]\<rparr>"
  by (simp add: scrape_page_def page_try_def requests_get_def Let_def bnd_simps)


subsection \<open>The detail page\<close>

lemma table_loop_bad_row:
  "r \<in> set rows \<Longrightarrow> find_bs ''th'' None r = None \<Longrightarrow> isl (table_loop rows acc)"
proof (induction rows arbitrary: acc)
  case Nil
  then show ?case by simp
next
  case (Cons x rows)
  show ?case
  proof (cases "x = r")
    case True
    then show ?thesis using Cons.prems by (simp add: dot_text_def bnd_simps)
  next
    case False
    then have "r \<in> set rows" using Cons.prems by simp
    then have "isl (table_loop rows acc')" for acc'
      using Cons.IH Cons.prems by blast
    then show ?thesis
      by (cases "dot_text (find_bs ''th'' None x)"; cases "dot_text (find_bs ''td'' None x)")
         (simp_all add: bnd_simps)
  qed
qed

lemma table_loop_wf:
  "\<forall>r \<in> set rows. find_bs ''th'' None r \<noteq> None \<and> find_bs ''td'' None r \<noteq> None
   \<Longrightarrow> \<exists>info. table_loop rows acc = Inr info"
proof (induction rows arbitrary: acc)
  case Nil
  then show ?case by simp
next
  case (Cons x rows)
  then obtain th td where "find_bs ''th'' None x = Some th" "find_bs ''td'' None x = Some td"
    by auto
  then show ?case using Cons by (simp add: dot_text_def bnd_simps)
qed

lemma table_loop_missing:
  "table_loop rows acc = Inr info \<Longrightarrow>
   \<forall>r \<in> set rows. dot_text (find_bs ''th'' None r) \<noteq> Inr k \<Longrightarrow>
   map_of acc k = None \<Longrightarrow> map_of info k = None"
proof (induction rows arbitrary: acc)
  case Nil
  then show ?case by simp
next
  case (Cons x rows)
  from Cons.prems(1) obtain h v where h: "dot_text (find_bs ''th'' None x) = Inr h"
    and v: "dot_text (find_bs ''td'' None x) = Inr v"
    and rest: "table_loop rows (AList.update h v acc) = Inr info"
    by (cases "dot_text (find_bs ''th'' None x)"; cases "dot_text (find_bs ''td'' None x)")
       (simp_all add: bnd_simps)
  have "h \<noteq> k" using Cons.prems(2) h by auto
  then have "map_of (AList.update h v acc) k = None"
    using Cons.prems(3) by (simp add: update_conv')
  moreover have "\<forall>r \<in> set rows. dot_text (find_bs ''th'' None r) \<noteq> Inr k"
    using Cons.prems(2) by simp
  ultimately show ?case using Cons.IH rest by blast
qed

lemma dict_get_missing: "map_of d k = None \<Longrightarrow> dict_get d k dflt = dflt"
  by (simp add: dict_get_def)

lemma parse_details_keys:
  "parse_details soup = Inr d \<Longrightarrow>
   map fst d = [''categoria'', ''descripcion'', ''upc'', ''impuestos'', ''stock'']"
  by (auto simp: parse_details_def bnd_def Let_def split: sum.splits option.splits)

lemma parse_details_bad_row:
  assumes "find_bs ''table'' (Some ''table-striped'') soup = Some t"
    and "r \<in> set (find_all ''tr'' None t)" and "find_bs ''th'' None r = None"
  shows "isl (parse_details soup)"
proof -
  obtain e where "table_loop (find_all ''tr'' None t) [] = Inl e"
    using table_loop_bad_row [OF assms(2,3), of "[]"]
    by (cases "table_loop (find_all ''tr'' None t) []") auto
  then show ?thesis using assms(1)
    by (auto simp: parse_details_def bnd_def Let_def split: sum.splits option.splits)
qed

lemma detail_tokens:
  "split_space [] ''breadcrumb'' = [''breadcrumb'']"
  "split_space [] ''active'' = [''active'']"
  "split_space [] ''product_page'' = [''product_page'']"
  "split_space [] ''table table-striped'' = [''table'', ''table-striped'']"
  by code_simp+

lemma breadcrumb_links:
  "dot_find_all (find_bs ''ul'' (Some ''breadcrumb'') (detail_page ps rows)) ''a''
     = Inr [Tag ''a'' [(''href'', ''../../index.html'')] [NavigableString ''Home''],
            Tag ''a'' [(''href'', ''../category/books_1/index.html'')] [NavigableString ''Books''],
            Tag ''a'' [(''href'', ''../category/books/poetry_23/index.html'')] [NavigableString ''Poetry'']]"
  by (simp add: detail_page_def breadcrumb_def soup_eval detail_tokens)

lemma detail_page_no_paragraph:
  "parse_details (detail_page [] [table_row ''UPC'' ''a897fe39b1053632'', table_row ''Tax'' ''0.00''])
     = Inr [(''categoria'', PyStr ''Poetry''),
            (''descripcion'', PyStr sin_descripcion),
            (''upc'', PyStr ''a897fe39b1053632''),
            (''impuestos'', PyStr ''0.00''),
            (''stock'', PyStr [])]"
  by (simp add: parse_details_def breadcrumb_links bnd_simps list_item_def)
     (simp add: detail_page_def breadcrumb_def table_row_def soup_eval detail_tokens bnd_simps
        dict_get_def)

lemma detail_page_bad_row:
  "parse_details (detail_page [Tag ''p'' [] [NavigableString ''Poems.'']]
      [table_row ''UPC'' ''a897fe39b1053632'', Tag ''tr'' [] [Tag ''td'' [] [NavigableString ''0.00'']]])
     = Inl AttributeError"
  by (simp add: parse_details_def breadcrumb_links bnd_simps list_item_def)
     (simp add: detail_page_def breadcrumb_def table_row_def soup_eval detail_tokens bnd_simps
        dict_get_def)

lemma requests_get_PyStr:
  "requests_get net lg (PyStr u) =
     (case net (calls lg) u of Failed \<Rightarrow> Inl ConnectionError
      | Response status soup \<Rightarrow> Inr (status, soup), lg @ [Get (PyStr u)])"
  by (simp add: requests_get_def)

lemma scrape_book_details_log: "snd (scrape_book_details net lg url) = lg @ [Get url]"
  by (auto simp: scrape_book_details_def details_try_def requests_get_def Let_def
           split: sum.splits prod.splits)

subsection \<open>The detail loop\<close>

lemma scrape_book_details_keys:
  "fst (scrape_book_details net lg url) = Some d \<Longrightarrow>
   map fst d = [''categoria'', ''descripcion'', ''upc'', ''impuestos'', ''stock'']"
  by (auto simp: scrape_book_details_def details_try_def requests_get_def bnd_def Let_def
                 raise_for_status_def
           dest: parse_details_keys
           split: sum.splits prod.splits pyval.splits response.splits if_splits)

lemma detailed_book_append:
  assumes "map fst d = [''categoria'', ''descripcion'', ''upc'', ''impuestos'', ''stock'']"
  shows "detailed_book t p r d = [(''titulo'', t), (''precio'', p), (''rating'', r)] @ d"
proof -
  from assms obtain a b c e f where
    "d = [(''categoria'', a), (''descripcion'', b), (''upc'', c), (''impuestos'', e), (''stock'', f)]"
    by (auto simp: map_eq_Cons_conv)
  then show ?thesis by (simp add: detailed_book_def)
qed

lemma getitem_row_column:
  "c \<in> set (columns df) \<Longrightarrow> getitem_row df row c = Inr (dict_get row c (PyFloat NaN))"
  by (simp add: getitem_row_def)

lemma detail_loop_steps:
  assumes cols: "{''libro_url'', ''titulo'', ''precio'', ''rating''} \<subseteq> set (columns df)"
  shows "detail_loop net df rows acc lg =
     Inr (acc @ concat (map (\<lambda>i.
                 case fst (scrape_book_details net
                             (lg @ concat (map (\<lambda>row. [Get (dict_get row ''libro_url'' (PyFloat NaN)), Sleep])
                                             (take i rows)))
                             (dict_get (rows ! i) ''libro_url'' (PyFloat NaN))) of
                   None \<Rightarrow> []
                 | Some d \<Rightarrow> [detailed_book (dict_get (rows ! i) ''titulo'' (PyFloat NaN))
                                 (dict_get (rows ! i) ''precio'' (PyFloat NaN))
                                 (dict_get (rows ! i) ''rating'' (PyFloat NaN)) d])
               [0..<length rows]),
          lg @ concat (map (\<lambda>row. [Get (dict_get row ''libro_url'' (PyFloat NaN)), Sleep]) rows))"
proof (induction rows arbitrary: acc lg)
  case Nil
  show ?case by simp
next
  case (Cons row rows)
  let ?u = "dict_get row ''libro_url'' (PyFloat NaN)"
  have c: "getitem_row df r ''libro_url'' = Inr (dict_get r ''libro_url'' (PyFloat NaN))"
    "getitem_row df r ''titulo'' = Inr (dict_get r ''titulo'' (PyFloat NaN))"
    "getitem_row df r ''precio'' = Inr (dict_get r ''precio'' (PyFloat NaN))"
    "getitem_row df r ''rating'' = Inr (dict_get r ''rating'' (PyFloat NaN))" for r
    using cols by (simp_all add: getitem_row_column)
  obtain details where details: "scrape_book_details net lg ?u = (details, lg @ [Get ?u])"
    using scrape_book_details_log [of net lg ?u] by (cases "scrape_book_details net lg ?u") simp
  have nonempty: "d \<noteq> []" if "details = Some d" for d
    using scrape_book_details_keys [of net lg ?u d] details that by auto
  show ?case
  proof (cases details)
    case None
    then show ?thesis
      using details
      by (simp add: c bnd_simps Cons.IH map_upt_Suc del: upt_Suc cong: option.case_cong)
  next
    case (Some d)
    then show ?thesis
      using details nonempty [OF Some]
      by (simp add: c bnd_simps Cons.IH map_upt_Suc del: upt_Suc cong: option.case_cong)
  qed
qed

lemma parse_good_detail: "parse_details good_detail = Inr good_details"
  by (simp add: good_detail_def good_details_def detail_page_no_paragraph)

lemma length_concat_upt:
  "(\<And>i. length (f i) \<le> 1) \<Longrightarrow> length (concat (map f [0..<n])) \<le> n"
proof (induction n)
  case 0
  show ?case by simp
next
  case (Suc n)
  have "length (f n) \<le> 1" by (rule Suc.prems)
  moreover have "length (concat (map f [0..<n])) \<le> n" using Suc by blast
  ultimately show ?case by simp
qed

lemma calls_detail_events:
  "calls (lg @ concat (map (\<lambda>row. [Get (g row), Sleep]) rows)) = calls lg + length rows"
  by (induction rows arbitrary: lg) (simp_all add: calls_def)

lemma first_only_reply:
  "fst (scrape_book_details first_only [] (PyStr u)) = Some good_details"
  "calls lg \<noteq> 0 \<Longrightarrow> fst (scrape_book_details first_only lg (PyStr u)) = None"
  by (simp_all add: scrape_book_details_def details_try_def requests_get_PyStr first_only_def
        calls_def bnd_simps raise_for_status_def parse_good_detail)

lemma book_record_get:
  "dict_get (book_record t p) ''titulo'' dflt = PyStr t"
  "dict_get (book_record t p) ''precio'' dflt = PyFloat p"
  "dict_get (book_record t p) ''rating'' dflt = PyInt 3"
  "dict_get (book_record t p) ''libro_url'' dflt = PyStr ''http://books.toscrape.com/catalogue/a/index.html''"
  by (simp_all add: book_record_def dict_get_def)

lemma book_record_columns:
  "columns (DataFrame (book_record t p # rs)) =
     rev (remdups (rev ([''titulo'', ''precio'', ''rating'', ''disponibilidad'', ''imagen_url'',
                         ''libro_url''] @ concat (map (map fst) rs))))"
  by (simp add: DataFrame_def book_record_def)

lemma book_record_frame:
  "{''libro_url'', ''titulo'', ''precio'', ''rating''}
     \<subseteq> set (columns (DataFrame (book_record t p # rs)))"
  by (simp add: book_record_columns)

lemma enriched_A:
  "detailed_book (PyStr ''A'') (PyFloat (Finite 1)) (PyInt 3) good_details
     = [(''titulo'', PyStr ''A''), (''precio'', PyFloat (Finite 1)), (''rating'', PyInt 3)]
       @ good_details"
  by (rule detailed_book_append) (simp add: good_details_def)

lemma concat_empty: "concat (map (\<lambda>k. []) xs) = []"
  by (induction xs) simp_all

lemma failed_pages: "fst (scrape_books (\<lambda>k url. Failed) n lg) = DataFrame []"
  using walk_int [of "\<lambda>k url. Failed" "\<lparr>all_books = [], log = lg\<rparr>" n]
  by (simp add: scrape_books_def Let_def page_books_def concat_empty)

section \<open>Properties\<close>

text \<open>
  C1, as the claim states it, fails: the loop over the books of a page has no handler of
  its own. On a page of three books whose second book has the price text \<^verbatim>\<open>free\<close>,
  the third book parses on its own and is a book of the page, yet the catalog holds the
  first book only.
\<close>

theorem book_loop_counterexample:
  "parse_book (book_node ''C'' (pound @ ''3.00'')) = Inr (book_record ''C'' (Finite 3))
   \<and> book_node ''C'' (pound @ ''3.00'') \<in> set (find_all ''article'' (Some ''product_pod'') three_books)
   \<and> records (fst (scrape_books (\<lambda>k url. Response 200 three_books) 1 []))
       = [book_record ''A'' (Finite 1)]"
proof -
  have "records (fst (scrape_books (\<lambda>k url. Response 200 three_books) 1 []))
          = page_books (Response 200 three_books)"
    using walk_int [of "\<lambda>k url. Response 200 three_books" "\<lparr>all_books = [], log = []\<rparr>" 1]
    by (simp add: scrape_books_def Let_def DataFrame_def upto_examples)
  then show ?thesis
    by (simp add: page_books_three parse_book_node price_examples bnd_simps three_books_articles)
qed

text \<open>
  C1, amended: for every catalog page, the loop over the books appends one record per
  book, in document order, for the books before the first one whose extraction raises;
  that book and all books after it on the page are not appended, and the records
  appended before stay. When every book of the page parses, there is one record per book,
  in document order.
\<close>

theorem page_books_prefix:
  "(\<not> (400 \<le> status \<and> status < 600) \<longrightarrow>
      page_books (Response status soup)
        = map (\<lambda>b. projr (parse_book b))
            (takeWhile (\<lambda>b. \<not> isl (parse_book b)) (find_all ''article'' (Some ''product_pod'') soup)))
   \<and> snd (book_loop books acc)
        = acc @ map (\<lambda>b. projr (parse_book b)) (takeWhile (\<lambda>b. \<not> isl (parse_book b)) books)
   \<and> ((\<forall>b \<in> set books. \<not> isl (parse_book b)) \<longrightarrow>
        book_loop books acc = (None, acc @ map (\<lambda>b. projr (parse_book b)) books))
   \<and> (isl (parse_book b) \<longrightarrow>
        book_loop (pre @ b # post) acc = (fst (book_loop (pre @ [b]) acc), snd (book_loop pre acc))
        \<and> fst (book_loop (pre @ [b]) acc) \<noteq> None)"
proof -
  have 1: "\<not> (400 \<le> status \<and> status < 600) \<longrightarrow>
      page_books (Response status soup)
        = map (\<lambda>b. projr (parse_book b))
            (takeWhile (\<lambda>b. \<not> isl (parse_book b)) (find_all ''article'' (Some ''product_pod'') soup))"
    by (simp add: page_books_def raise_for_status_def book_loop_rows)
  have 2: "snd (book_loop books acc)
        = acc @ map (\<lambda>b. projr (parse_book b)) (takeWhile (\<lambda>b. \<not> isl (parse_book b)) books)"
    by (rule book_loop_rows)
  have 3: "(\<forall>b \<in> set books. \<not> isl (parse_book b)) \<longrightarrow>
        book_loop books acc = (None, acc @ map (\<lambda>b. projr (parse_book b)) books)"
  proof
    assume all: "\<forall>b \<in> set books. \<not> isl (parse_book b)"
    have tw: "takeWhile (\<lambda>b. \<not> isl (parse_book b)) books = books"
      using all by simp
    have dw: "dropWhile (\<lambda>b. \<not> isl (parse_book b)) books = []"
      using all by simp
    have "snd (book_loop books acc) = acc @ map (\<lambda>b. projr (parse_book b)) books"
      by (simp only: book_loop_rows tw)
    moreover have "fst (book_loop books acc) = None"
      by (simp only: book_loop_raised dw list.case)
    ultimately show "book_loop books acc = (None, acc @ map (\<lambda>b. projr (parse_book b)) books)"
      by (simp add: prod_eq_iff)
  qed
  have 4: "isl (parse_book b) \<longrightarrow>
        book_loop (pre @ b # post) acc = (fst (book_loop (pre @ [b]) acc), snd (book_loop pre acc))
        \<and> fst (book_loop (pre @ [b]) acc) \<noteq> None"
  proof
    assume bad: "isl (parse_book b)"
    have "book_loop (pre @ b # post) acc = (fst (book_loop (pre @ [b]) acc), snd (book_loop pre acc))
        \<and> fst (book_loop (pre @ [b]) acc) \<noteq> None" for acc
    proof (induction pre arbitrary: acc)
      case Nil
      then show ?case using bad by (cases "parse_book b") simp_all
    next
      case (Cons p pre)
      then show ?case by (cases "parse_book p") simp_all
    qed
    then show "book_loop (pre @ b # post) acc = (fst (book_loop (pre @ [b]) acc), snd (book_loop pre acc))
        \<and> fst (book_loop (pre @ [b]) acc) \<noteq> None" .
  qed
  from 1 2 3 4 show ?thesis by blast
qed

theorem page_books_prefix_witness:
  "(200::int) < 400
   \<and> page_books (Response 200 three_books) = [book_record ''A'' (Finite 1)]
   \<and> parse_book (book_node ''A'' (pound @ ''1.00'')) = Inr (book_record ''A'' (Finite 1))
   \<and> parse_book (book_node ''C'' (pound @ ''3.00'')) = Inr (book_record ''C'' (Finite 3))
   \<and> book_loop [book_node ''A'' (pound @ ''1.00''), book_node ''C'' (pound @ ''3.00'')] []
       = (None, [book_record ''A'' (Finite 1), book_record ''C'' (Finite 3)])
   \<and> isl (parse_book (book_node ''B'' ''free''))
   \<and> book_loop ([book_node ''A'' (pound @ ''1.00'')] @ book_node ''B'' ''free''
                   # [book_node ''C'' (pound @ ''3.00'')]) []
       = (Some ValueError, [book_record ''A'' (Finite 1)])"
  using page_books_prefix [of 200 three_books
          "[book_node ''A'' (pound @ ''1.00''), book_node ''C'' (pound @ ''3.00'')]" "[]"
          "book_node ''B'' ''free''" "[book_node ''A'' (pound @ ''1.00'')]"
          "[book_node ''C'' (pound @ ''3.00'')]"]
  by (simp add: three_books_articles parse_book_node price_examples bnd_simps)

text \<open>
  C2: for every page count \<open>n\<close>, \<open>scrape_books\<close> calls \<^verbatim>\<open>requests.get\<close> for
  the pages 1 to \<open>n\<close> in this order and for nothing else, so it makes exactly \<open>n\<close>
  requests whatever fails on the way; the catalog is the concatenation, in page order, of
  what each page adds, and a page whose request failed or whose status is an error adds
  nothing, no placeholder either.
\<close>

theorem scrape_books_walk:
  "filter is_Get (snd (scrape_books net n lg))
     = filter is_Get lg @ map (\<lambda>page. Get (PyStr (page_url page))) [1..n]
   \<and> calls (snd (scrape_books net n [])) = nat n
   \<and> records (fst (scrape_books net n lg))
     = concat (map (\<lambda>page. page_books (net (calls lg + nat (page - 1)) (page_url page))) [1..n])
   \<and> page_books Failed = []
   \<and> (400 \<le> status \<and> status < 600 \<longrightarrow> page_books (Response status soup) = [])"
proof -
  let ?w = "\<lparr>all_books = [], log = lg\<rparr>"
  have 1: "filter is_Get (snd (scrape_books net n lg))
     = filter is_Get lg @ map (\<lambda>page. Get (PyStr (page_url page))) [1..n]"
    using walk_int [of net ?w n] by (simp add: scrape_books_def Let_def)
  have 2: "records (fst (scrape_books net n lg))
     = concat (map (\<lambda>page. page_books (net (calls lg + nat (page - 1)) (page_url page))) [1..n])"
    using walk_int [of net ?w n] by (simp add: scrape_books_def Let_def DataFrame_def)
  have "filter is_Get (snd (scrape_books net n []))
     = map (\<lambda>page. Get (PyStr (page_url page))) [1..n]"
    using walk_int [of net "\<lparr>all_books = [], log = []\<rparr>" n] by (simp add: scrape_books_def Let_def)
  then have 3: "calls (snd (scrape_books net n [])) = nat n"
    by (simp add: calls_def)
  have 4: "page_books Failed = []" by (simp add: page_books_def)
  have 5: "400 \<le> status \<and> status < 600 \<longrightarrow> page_books (Response status soup) = []"
    by (simp add: page_books_def raise_for_status_def)
  from 1 2 3 4 5 show ?thesis by blast
qed

theorem scrape_books_walk_witness:
  "(400::int) \<le> 404 \<and> (404::int) < 600
   \<and> page_books (Response 404 (NavigableString [])) = []
   \<and> calls (snd (scrape_books (\<lambda>k url. Failed) 2 [])) = 2"
  using scrape_books_walk [of "\<lambda>k url. Failed" 2 "[]" 404 "NavigableString []"] by simp

text \<open>
  C3, as the claim states it, fails. With the price text the pound sign followed by \<^verbatim>\<open>-5.00\<close> the text
  after the leading glyph is no non-negative decimal, yet the book is not skipped: it
  gets the price -5. With a pound sign between \<^verbatim>\<open>5\<close> and \<^verbatim>\<open>0\<close> the glyph does not lead and is removed all
  the same: the price is 50.
\<close>

theorem price_of_text_counterexample:
  "dot_text (find_bs ''p'' (Some ''price_color'') (book_node ''A'' (pound @ ''-5.00'')))
     = Inr (pound @ ''-5.00'')
   \<and> parse_book (book_node ''A'' (pound @ ''-5.00'')) = Inr (book_record ''A'' (Finite (- 5)))
   \<and> parse_book (book_node ''A'' (''5'' @ pound @ ''0'')) = Inr (book_record ''A'' (Finite 50))"
proof -
  have "dot_text (find_bs ''p'' (Some ''price_color'') (book_node ''A'' (pound @ ''-5.00'')))
          = Inr (pound @ ''-5.00'')"
    by (simp add: book_node_def soup_eval tokens)
  moreover have "parse_book (book_node ''A'' (pound @ ''-5.00''))
                   = Inr (book_record ''A'' (Finite (- 5)))"
    by (simp only: parse_book_node price_examples bnd_simps)
  moreover have "parse_book (book_node ''A'' (''5'' @ pound @ ''0''))
                   = Inr (book_record ''A'' (Finite 50))"
    by (simp only: parse_book_node price_examples bnd_simps)
  ultimately show ?thesis by blast
qed

text \<open>
  C3, amended: for every price text, the price step removes the pound sign
  wherever it stands, a leading one included, and hands the rest to \<^verbatim>\<open>float\<close>,
  which accepts a sign, so negative numbers too (the pound sign followed by \<^verbatim>\<open>-5.00\<close> gives -5). When
  \<^verbatim>\<open>float\<close> rejects the rest, the book raises and yields no record, and the loop
  over the books of the page ends there with the records appended so far; the exception
  is a value the page's handler receives, not a crash.
\<close>

theorem price_of_text_glyph:
  "price_of_text (a @ pound @ b) = py_float (str_replace pound [] a @ str_replace pound [] b)
   \<and> price_of_text (pound @ b) = price_of_text b
   \<and> price_of_text (pound @ ''-5.00'') = Inr (Finite (- 5))
   \<and> (dot_text (find_bs ''p'' (Some ''price_color'') book) = Inr t \<and> isl (price_of_text t)
        \<longrightarrow> isl (parse_book book)
            \<and> book_loop (book # books) acc = (Some (projl (parse_book book)), acc))"
proof -
  have 1: "price_of_text (a @ pound @ b) = py_float (str_replace pound [] a @ str_replace pound [] b)"
    by (simp add: price_of_text_def replace_pound_glyph)
  have 2: "price_of_text (pound @ b) = price_of_text b"
    by (simp add: price_of_text_def replace_pound_head)
  have 3: "price_of_text (pound @ ''-5.00'') = Inr (Finite (- 5))"
    by (rule price_examples)
  have 4: "dot_text (find_bs ''p'' (Some ''price_color'') book) = Inr t \<and> isl (price_of_text t)
        \<longrightarrow> isl (parse_book book)
            \<and> book_loop (book # books) acc = (Some (projl (parse_book book)), acc)"
  proof
    assume h: "dot_text (find_bs ''p'' (Some ''price_color'') book) = Inr t \<and> isl (price_of_text t)"
    then obtain e where e: "price_of_text t = Inl e" by (cases "price_of_text t") auto
    have bad: "isl (parse_book book)"
      using h e by (auto simp: parse_book_def bnd_def split: sum.splits)
    then obtain e' where "parse_book book = Inl e'" by (cases "parse_book book") auto
    then show "isl (parse_book book)
            \<and> book_loop (book # books) acc = (Some (projl (parse_book book)), acc)"
      by simp
  qed
  from 1 2 3 4 show ?thesis by blast
qed

theorem price_of_text_glyph_witness:
  "dot_text (find_bs ''p'' (Some ''price_color'') (book_node ''B'' ''free'')) = Inr ''free''
   \<and> isl (price_of_text ''free'')
   \<and> isl (parse_book (book_node ''B'' ''free''))
   \<and> book_loop [book_node ''B'' ''free'', book_node ''C'' (pound @ ''3.00'')] [] = (Some ValueError, [])"
proof -
  have t: "dot_text (find_bs ''p'' (Some ''price_color'') (book_node ''B'' ''free'')) = Inr ''free''"
    by (simp add: book_node_def soup_eval tokens)
  have b: "isl (price_of_text ''free'')"
    by (simp add: price_examples)
  show ?thesis
    using t b price_of_text_glyph [of _ _ "book_node ''B'' ''free''" "''free''"
            "[book_node ''C'' (pound @ ''3.00'')]" "[]"]
    by (simp add: parse_book_node price_examples bnd_simps)
qed

text \<open>
  C4: \<open>get_rating_number\<close> is total and exact on every string: the five star words
  map to 1 to 5, every other string maps to 0, and the result always lies between 0 and 5.
\<close>

theorem get_rating_number_exact:
  "get_rating_number ''One'' = 1 \<and> get_rating_number ''Two'' = 2
   \<and> get_rating_number ''Three'' = 3 \<and> get_rating_number ''Four'' = 4
   \<and> get_rating_number ''Five'' = 5
   \<and> (s \<notin> {''One'', ''Two'', ''Three'', ''Four'', ''Five''} \<longrightarrow> get_rating_number s = 0)
   \<and> 0 \<le> get_rating_number s \<and> get_rating_number s \<le> 5"
  by (simp add: get_rating_number_def dict_get_def ratings_def)

theorem get_rating_number_exact_witness:
  "''Six'' \<notin> {''One'', ''Two'', ''Three'', ''Four'', ''Five''} \<and> get_rating_number ''Six'' = 0"
  using get_rating_number_exact [of "''Six''"] by simp

text \<open>
  C9, as the claim states it, fails on the sentinel: for a detail page whose product
  article has no direct paragraph, the description is the string \<^verbatim>\<open>Sin descripcion\<close>
  with an acute accent on the last \<^verbatim>\<open>o\<close>, not the string \<^verbatim>\<open>no description\<close>.
\<close>

theorem parse_details_counterexample:
  "parse_details (detail_page [] [table_row ''UPC'' ''a897fe39b1053632'', table_row ''Tax'' ''0.00''])
     = Inr [(''categoria'', PyStr ''Poetry''),
            (''descripcion'', PyStr sin_descripcion),
            (''upc'', PyStr ''a897fe39b1053632''),
            (''impuestos'', PyStr ''0.00''),
            (''stock'', PyStr [])]
   \<and> sin_descripcion \<noteq> ''no description''"
  by (simp add: detail_page_no_paragraph) (simp add: sin_descripcion_def)

text \<open>
  C9, amended: for every detail page whose breadcrumb has its three links, whose product
  article exists and whose table rows all have a header cell and a value cell, the parser
  returns the dictionary of the five fields; the description is the fixed sentinel string
  \<open>sin_descripcion\<close> when the article has no direct paragraph; and a key among UPC, Tax
  and Availability that no row of the table has as its header, or a missing table, gives
  the empty string for its field.
\<close>

theorem parse_details_defaults:
  assumes links: "dot_find_all (find_bs ''ul'' (Some ''breadcrumb'') soup) ''a'' = Inr links"
    and three: "2 < length links"
    and article: "find_bs ''article'' (Some ''product_page'') soup = Some article"
    and rows: "rows = (case find_bs ''table'' (Some ''table-striped'') soup of
                         None \<Rightarrow> [] | Some t \<Rightarrow> find_all ''tr'' None t)"
    and cells: "\<forall>r \<in> set rows. find_bs ''th'' None r \<noteq> None \<and> find_bs ''td'' None r \<noteq> None"
  shows "\<exists>d. parse_details soup = Inr d
           \<and> map fst d = [''categoria'', ''descripcion'', ''upc'', ''impuestos'', ''stock'']
           \<and> (find_child ''p'' article = None \<longrightarrow>
                map_of d ''descripcion'' = Some (PyStr sin_descripcion))
           \<and> ((\<forall>r \<in> set rows. dot_text (find_bs ''th'' None r) \<noteq> Inr ''UPC'') \<longrightarrow>
                map_of d ''upc'' = Some (PyStr []))
           \<and> ((\<forall>r \<in> set rows. dot_text (find_bs ''th'' None r) \<noteq> Inr ''Tax'') \<longrightarrow>
                map_of d ''impuestos'' = Some (PyStr []))
           \<and> ((\<forall>r \<in> set rows. dot_text (find_bs ''th'' None r) \<noteq> Inr ''Availability'') \<longrightarrow>
                map_of d ''stock'' = Some (PyStr []))"
proof -
  obtain info where info: "table_loop rows [] = Inr info"
    using table_loop_wf [OF cells] by blast
  have tbl: "(case find_bs ''table'' (Some ''table-striped'') soup of
               None \<Rightarrow> Inr [] | Some t \<Rightarrow> table_loop (find_all ''tr'' None t) []) = Inr info"
    using info rows by (cases "find_bs ''table'' (Some ''table-striped'') soup") simp_all
  define d where "d = [(''categoria'', PyStr (get_text (links ! 2))),
             (''descripcion'', PyStr (case find_child ''p'' article of
                                        Some t \<Rightarrow> get_text t | None \<Rightarrow> sin_descripcion)),
             (''upc'', PyStr (dict_get info ''UPC'' [])),
             (''impuestos'', PyStr (dict_get info ''Tax'' [])),
             (''stock'', PyStr (dict_get info ''Availability'' []))]"
  have d: "parse_details soup = Inr d"
    using three by (simp add: d_def parse_details_def links article tbl bnd_simps list_item_def)
  have missing: "(\<forall>r \<in> set rows. dot_text (find_bs ''th'' None r) \<noteq> Inr k)
                   \<longrightarrow> dict_get info k [] = []" for k
    using table_loop_missing [OF info, of k] by (simp add: dict_get_missing)
  have f1: "map fst d = [''categoria'', ''descripcion'', ''upc'', ''impuestos'', ''stock'']"
    by (simp add: d_def)
  have f2: "find_child ''p'' article = None \<longrightarrow>
              map_of d ''descripcion'' = Some (PyStr sin_descripcion)"
    by (simp add: d_def)
  have f3: "(\<forall>r \<in> set rows. dot_text (find_bs ''th'' None r) \<noteq> Inr ''UPC'') \<longrightarrow>
              map_of d ''upc'' = Some (PyStr [])"
    using missing [of "''UPC''"] by (simp add: d_def)
  have f4: "(\<forall>r \<in> set rows. dot_text (find_bs ''th'' None r) \<noteq> Inr ''Tax'') \<longrightarrow>
              map_of d ''impuestos'' = Some (PyStr [])"
    using missing [of "''Tax''"] by (simp add: d_def)
  have f5: "(\<forall>r \<in> set rows. dot_text (find_bs ''th'' None r) \<noteq> Inr ''Availability'') \<longrightarrow>
              map_of d ''stock'' = Some (PyStr [])"
    using missing [of "''Availability''"] by (simp add: d_def)
  from d f1 f2 f3 f4 f5 show ?thesis
    by (intro exI [of _ d] conjI)
qed

theorem parse_details_defaults_witness:
  "\<exists>d. parse_details (detail_page [] [table_row ''UPC'' ''a897fe39b1053632'', table_row ''Tax'' ''0.00''])
         = Inr d
       \<and> map_of d ''descripcion'' = Some (PyStr sin_descripcion)
       \<and> map_of d ''stock'' = Some (PyStr [])"
proof -
  let ?rows = "[table_row ''UPC'' ''a897fe39b1053632'', table_row ''Tax'' ''0.00'']"
  let ?soup = "detail_page [] ?rows"
  let ?article = "Tag ''article'' [(''class'', ''product_page'')]
                    (Tag ''h1'' [] [NavigableString ''A''] # []
                     @ [Tag ''table'' [(''class'', ''table table-striped'')] ?rows])"
  have article: "find_bs ''article'' (Some ''product_page'') ?soup = Some ?article"
    by (simp add: detail_page_def breadcrumb_def table_row_def soup_eval detail_tokens)
  have rows: "?rows = (case find_bs ''table'' (Some ''table-striped'') ?soup of
                         None \<Rightarrow> [] | Some t \<Rightarrow> find_all ''tr'' None t)"
    by (simp add: detail_page_def breadcrumb_def table_row_def soup_eval detail_tokens)
  have cells: "\<forall>r \<in> set ?rows. find_bs ''th'' None r \<noteq> None \<and> find_bs ''td'' None r \<noteq> None"
    by (simp add: table_row_def soup_eval)
  have no_p: "find_child ''p'' ?article = None"
    by (simp add: find_child_def matches_def)
  have no_row: "\<forall>r \<in> set ?rows. dot_text (find_bs ''th'' None r) \<noteq> Inr ''Availability''"
    by (simp add: table_row_def soup_eval)
  obtain d where d: "parse_details ?soup = Inr d"
    and p: "find_child ''p'' ?article = None \<longrightarrow>
              map_of d ''descripcion'' = Some (PyStr sin_descripcion)"
    and s: "(\<forall>r \<in> set ?rows. dot_text (find_bs ''th'' None r) \<noteq> Inr ''Availability'') \<longrightarrow>
              map_of d ''stock'' = Some (PyStr [])"
    using parse_details_defaults [OF breadcrumb_links _ article rows cells] by auto
  from p no_p have "map_of d ''descripcion'' = Some (PyStr sin_descripcion)" by (rule mp)
  moreover from s no_row have "map_of d ''stock'' = Some (PyStr [])" by (rule mp)
  ultimately show ?thesis using d by (intro exI [of _ d] conjI)
qed

text \<open>
  C10: \<open>scrape_book_details\<close> never raises to its caller. Its result is either the
  dictionary of the five fields that the \<^verbatim>\<open>try\<close> block returned, or
  \<^verbatim>\<open>None\<close> when the block raised; it is \<^verbatim>\<open>None\<close> when the request
  fails, when the status is an error, and when the parsing raises, which it does for a
  table with a row that lacks a header cell.
\<close>

theorem scrape_book_details_total:
  "((\<exists>d. scrape_book_details net lg url = (Some d, lg @ [Get url])
          \<and> fst (details_try net lg url) = Inr d
          \<and> map fst d = [''categoria'', ''descripcion'', ''upc'', ''impuestos'', ''stock''])
     \<or> (scrape_book_details net lg url = (None, lg @ [Get url])
          \<and> isl (fst (details_try net lg url))))
   \<and> (net (calls lg) u = Failed \<longrightarrow> fst (scrape_book_details net lg (PyStr u)) = None)
   \<and> (net (calls lg) u = Response status soup \<and> 400 \<le> status \<and> status < 600 \<longrightarrow>
        fst (scrape_book_details net lg (PyStr u)) = None)
   \<and> (net (calls lg) u = Response status soup \<and> isl (parse_details soup) \<longrightarrow>
        fst (scrape_book_details net lg (PyStr u)) = None)
   \<and> (find_bs ''table'' (Some ''table-striped'') soup = Some t
        \<and> row \<in> set (find_all ''tr'' None t) \<and> find_bs ''th'' None row = None \<longrightarrow>
        isl (parse_details soup))
   \<and> (net (calls lg) u = Response status soup \<and> status < 400 \<and> parse_details soup = Inr d' \<longrightarrow>
        fst (scrape_book_details net lg (PyStr u)) = Some d')"
proof -
  have keys: "fst (details_try net lg url) = Inr d \<Longrightarrow>
      map fst d = [''categoria'', ''descripcion'', ''upc'', ''impuestos'', ''stock'']" for d
    by (auto simp: details_try_def requests_get_def bnd_def Let_def raise_for_status_def
             dest: parse_details_keys split: sum.splits prod.splits pyval.splits response.splits
                    if_splits)
  have 1: "(\<exists>d. scrape_book_details net lg url = (Some d, lg @ [Get url])
          \<and> fst (details_try net lg url) = Inr d
          \<and> map fst d = [''categoria'', ''descripcion'', ''upc'', ''impuestos'', ''stock''])
     \<or> (scrape_book_details net lg url = (None, lg @ [Get url])
          \<and> isl (fst (details_try net lg url)))"
  proof (cases "fst (details_try net lg url)")
    case (Inl e)
    then have "fst (scrape_book_details net lg url) = None"
      by (auto simp: scrape_book_details_def split: prod.splits sum.splits)
    then have "scrape_book_details net lg url = (None, lg @ [Get url])"
      using scrape_book_details_log [of net lg url] by (simp add: prod_eq_iff)
    then show ?thesis using Inl by simp
  next
    case (Inr d)
    then have "fst (scrape_book_details net lg url) = Some d"
      by (auto simp: scrape_book_details_def split: prod.splits sum.splits)
    then have "scrape_book_details net lg url = (Some d, lg @ [Get url])"
      using scrape_book_details_log [of net lg url] by (simp add: prod_eq_iff)
    then show ?thesis using Inr keys [OF Inr] by simp
  qed
  have 2: "net (calls lg) u = Failed \<longrightarrow> fst (scrape_book_details net lg (PyStr u)) = None"
    by (simp add: scrape_book_details_def details_try_def requests_get_PyStr bnd_simps)
  have 3: "net (calls lg) u = Response status soup \<and> 400 \<le> status \<and> status < 600 \<longrightarrow>
        fst (scrape_book_details net lg (PyStr u)) = None"
    by (simp add: scrape_book_details_def details_try_def requests_get_PyStr bnd_simps
          raise_for_status_def)
  have 4: "net (calls lg) u = Response status soup \<and> isl (parse_details soup) \<longrightarrow>
        fst (scrape_book_details net lg (PyStr u)) = None"
    by (cases "parse_details soup")
       (simp_all add: scrape_book_details_def details_try_def requests_get_PyStr bnd_simps
          raise_for_status_def)
  have 5: "find_bs ''table'' (Some ''table-striped'') soup = Some t
        \<and> row \<in> set (find_all ''tr'' None t) \<and> find_bs ''th'' None row = None \<longrightarrow>
        isl (parse_details soup)"
    using parse_details_bad_row by blast
  have 6: "net (calls lg) u = Response status soup \<and> status < 400 \<and> parse_details soup = Inr d' \<longrightarrow>
        fst (scrape_book_details net lg (PyStr u)) = Some d'"
    by (simp add: scrape_book_details_def details_try_def requests_get_PyStr bnd_simps
          raise_for_status_def)
  from 1 2 3 4 5 6 show ?thesis by (intro conjI)
qed

theorem scrape_book_details_total_witness:
  "fst (scrape_book_details (\<lambda>k u. Failed) [] (PyStr ''u'')) = None
   \<and> fst (scrape_book_details (\<lambda>k u. Response 404 (detail_page [] [])) [] (PyStr ''u'')) = None
   \<and> fst (scrape_book_details
             (\<lambda>k u. Response 200
                (detail_page [Tag ''p'' [] [NavigableString ''Poems.'']]
                   [table_row ''UPC'' ''a897fe39b1053632'',
                    Tag ''tr'' [] [Tag ''td'' [] [NavigableString ''0.00'']]]))
             [] (PyStr ''u'')) = None
   \<and> fst (scrape_book_details
             (\<lambda>k u. Response 200
                (detail_page [] [table_row ''UPC'' ''a897fe39b1053632'', table_row ''Tax'' ''0.00'']))
             [] (PyStr ''u''))
       = Some [(''categoria'', PyStr ''Poetry''),
               (''descripcion'', PyStr sin_descripcion),
               (''upc'', PyStr ''a897fe39b1053632''),
               (''impuestos'', PyStr ''0.00''),
               (''stock'', PyStr [])]"
proof -
  let ?bad_row = "Tag ''tr'' [] [Tag ''td'' [] [NavigableString ''0.00'']]"
  let ?rows = "[table_row ''UPC'' ''a897fe39b1053632'', ?bad_row]"
  let ?bad = "detail_page [Tag ''p'' [] [NavigableString ''Poems.'']] ?rows"
  let ?good = "detail_page [] [table_row ''UPC'' ''a897fe39b1053632'', table_row ''Tax'' ''0.00'']"
  let ?table = "Tag ''table'' [(''class'', ''table table-striped'')] ?rows"
  have a: "fst (scrape_book_details (\<lambda>k u. Failed) [] (PyStr ''u'')) = None"
    using scrape_book_details_total [of "\<lambda>k u. Failed" "[]" _ "''u''"] by simp
  have b: "fst (scrape_book_details (\<lambda>k u. Response 404 (detail_page [] [])) [] (PyStr ''u'')) = None"
    using scrape_book_details_total [of "\<lambda>k u. Response 404 (detail_page [] [])" "[]" _ "''u''" 404
            "detail_page [] []"] by simp
  have table: "find_bs ''table'' (Some ''table-striped'') ?bad = Some ?table"
    by (simp add: detail_page_def breadcrumb_def table_row_def soup_eval detail_tokens)
  have row: "?bad_row \<in> set (find_all ''tr'' None ?table)"
    by (simp add: table_row_def soup_eval)
  have th: "find_bs ''th'' None ?bad_row = None"
    by (simp add: soup_eval)
  have "isl (parse_details ?bad)"
    using scrape_book_details_total [of _ _ _ _ _ ?bad ?table ?bad_row] table row th by blast
  then have c: "fst (scrape_book_details (\<lambda>k u. Response 200 ?bad) [] (PyStr ''u'')) = None"
    using scrape_book_details_total [of "\<lambda>k u. Response 200 ?bad" "[]" _ "''u''" 200 ?bad] by simp
  have d: "fst (scrape_book_details (\<lambda>k u. Response 200 ?good) [] (PyStr ''u''))
       = Some [(''categoria'', PyStr ''Poetry''),
               (''descripcion'', PyStr sin_descripcion),
               (''upc'', PyStr ''a897fe39b1053632''),
               (''impuestos'', PyStr ''0.00''),
               (''stock'', PyStr [])]"
    using scrape_book_details_total [of "\<lambda>k u. Response 200 ?good" "[]" _ "''u''" 200 ?good _ _
            "[(''categoria'', PyStr ''Poetry''),
               (''descripcion'', PyStr sin_descripcion),
               (''upc'', PyStr ''a897fe39b1053632''),
               (''impuestos'', PyStr ''0.00''),
               (''stock'', PyStr [])]"]
          detail_page_no_paragraph by simp
  from a b c d show ?thesis by (intro conjI)
qed

text \<open>
  C5: for every sequence of records and every limit, the enrichment loop runs over the
  first \<open>limit\<close> records only (\<open>main\<close> fixes the limit to 10 by
  \<^verbatim>\<open>df_books.head(10)\<close>): it makes one detail request per such record, each
  followed by the pause. Its output holds, in the order of the input, one enriched record
  for each of these records whose detail call returned a dictionary, and nothing for a
  record whose detail request or parsing failed; so it has at most \<open>limit\<close> entries.
\<close>

theorem detail_loop_head:
  assumes "{''libro_url'', ''titulo'', ''precio'', ''rating''} \<subseteq> set (columns df)"
  shows "records (head_df limit df) = take limit (records df)
    \<and> detail_loop net df (records (head_df limit df)) [] lg =
        Inr (concat (map (\<lambda>i.
                 case fst (scrape_book_details net
                             (lg @ concat (map (\<lambda>row. [Get (dict_get row ''libro_url'' (PyFloat NaN)), Sleep])
                                             (take i (take limit (records df)))))
                             (dict_get (take limit (records df) ! i) ''libro_url'' (PyFloat NaN))) of
                   None \<Rightarrow> []
                 | Some d \<Rightarrow> [detailed_book
                                 (dict_get (take limit (records df) ! i) ''titulo'' (PyFloat NaN))
                                 (dict_get (take limit (records df) ! i) ''precio'' (PyFloat NaN))
                                 (dict_get (take limit (records df) ! i) ''rating'' (PyFloat NaN)) d])
               [0..<length (take limit (records df))]),
             lg @ concat (map (\<lambda>row. [Get (dict_get row ''libro_url'' (PyFloat NaN)), Sleep])
                            (take limit (records df))))
    \<and> length (fst (projr (detail_loop net df (records (head_df limit df)) [] lg))) \<le> limit
    \<and> calls (snd (projr (detail_loop net df (records (head_df limit df)) [] lg)))
        = calls lg + min limit (length (records df))"
proof -
  have h: "records (head_df limit df) = take limit (records df)"
    by (simp add: head_df_def)
  note loop = detail_loop_steps [OF assms, of net "take limit (records df)" "[]" lg]
  have len: "length (fst (projr (detail_loop net df (take limit (records df)) [] lg))) \<le> limit"
  proof -
    have "length (fst (projr (detail_loop net df (take limit (records df)) [] lg)))
            \<le> length (take limit (records df))"
      unfolding loop by (simp del: length_take) (rule length_concat_upt, simp split: option.splits)
    then show ?thesis by simp
  qed
  have c: "calls (snd (projr (detail_loop net df (take limit (records df)) [] lg)))
        = calls lg + min limit (length (records df))"
    unfolding loop by (simp add: calls_detail_events min.commute)
  show ?thesis
    unfolding h using loop len c by simp
qed

theorem detail_loop_head_witness:
  "detail_loop first_only
     (DataFrame [book_record ''A'' (Finite 1), book_record ''B'' (Finite 2), book_record ''C'' (Finite 3)])
     (records (head_df 2
        (DataFrame [book_record ''A'' (Finite 1), book_record ''B'' (Finite 2), book_record ''C'' (Finite 3)])))
     [] []
   = Inr ([[(''titulo'', PyStr ''A''), (''precio'', PyFloat (Finite 1)), (''rating'', PyInt 3)]
           @ good_details],
          [Get (PyStr ''http://books.toscrape.com/catalogue/a/index.html''), Sleep,
           Get (PyStr ''http://books.toscrape.com/catalogue/a/index.html''), Sleep])"
proof -
  let ?df = "DataFrame [book_record ''A'' (Finite 1), book_record ''B'' (Finite 2),
                        book_record ''C'' (Finite 3)]"
  have r: "records ?df = [book_record ''A'' (Finite 1), book_record ''B'' (Finite 2),
                          book_record ''C'' (Finite 3)]"
    by (simp add: DataFrame_def)
  have two: "[0..<2] = [0, 1]" by (simp add: upt_rec)
  show ?thesis
    using detail_loop_head [where df = ?df and limit = 2 and net = first_only and lg = "[]",
            OF book_record_frame, THEN conjunct2, THEN conjunct1]
    by (simp add: r two book_record_get first_only_reply calls_def enriched_A)
qed

text \<open>
  C6, as the claim states it, fails: the enriched record is no superset of the record of
  the catalog. For a catalog of one book whose detail page parses, the enriched record
  has no entry \<^verbatim>\<open>disponibilidad\<close>, which the catalog record has.
\<close>

theorem detailed_book_counterexample:
  "detail_loop (\<lambda>k url. Response 200 good_detail) (DataFrame [book_record ''A'' (Finite 1)])
     (records (head_df 10 (DataFrame [book_record ''A'' (Finite 1)]))) [] []
   = Inr ([[(''titulo'', PyStr ''A''), (''precio'', PyFloat (Finite 1)), (''rating'', PyInt 3)]
           @ good_details],
          [Get (PyStr ''http://books.toscrape.com/catalogue/a/index.html''), Sleep])
   \<and> map_of (book_record ''A'' (Finite 1)) ''disponibilidad'' = Some (PyStr ''In stock'')
   \<and> map_of ([(''titulo'', PyStr ''A''), (''precio'', PyFloat (Finite 1)), (''rating'', PyInt 3)]
              @ good_details) ''disponibilidad'' = None"
proof -
  let ?df = "DataFrame [book_record ''A'' (Finite 1)]"
  have r: "records (head_df 10 ?df) = [book_record ''A'' (Finite 1)]"
    by (simp add: DataFrame_def head_df_def)
  have reply: "fst (scrape_book_details (\<lambda>k url. Response 200 good_detail) [] (PyStr u))
                 = Some good_details" for u
    by (simp add: scrape_book_details_def details_try_def requests_get_PyStr
          bnd_simps raise_for_status_def parse_good_detail)
  have "detail_loop (\<lambda>k url. Response 200 good_detail) ?df (records (head_df 10 ?df)) [] []
   = Inr ([[(''titulo'', PyStr ''A''), (''precio'', PyFloat (Finite 1)), (''rating'', PyInt 3)]
           @ good_details],
          [Get (PyStr ''http://books.toscrape.com/catalogue/a/index.html''), Sleep])"
    unfolding r
    using detail_loop_steps [where df = ?df and net = "\<lambda>k url. Response 200 good_detail"
            and rows = "[book_record ''A'' (Finite 1)]" and acc = "[]" and lg = "[]"]
          book_record_frame [of "''A''" "Finite 1" "[]"]
    by (simp add: book_record_get reply enriched_A)
  moreover have "map_of (book_record ''A'' (Finite 1)) ''disponibilidad'' = Some (PyStr ''In stock'')"
    by (simp add: book_record_def)
  moreover have "map_of ([(''titulo'', PyStr ''A''), (''precio'', PyFloat (Finite 1)), (''rating'', PyInt 3)]
              @ good_details) ''disponibilidad'' = None"
    by (simp add: good_details_def)
  ultimately show ?thesis by (intro conjI)
qed

text \<open>
  C6, amended: for every successfully enriched record, the enriched record consists of
  the three fields \<^verbatim>\<open>titulo\<close>, \<^verbatim>\<open>precio\<close> and \<^verbatim>\<open>rating\<close> with the
  values the merge was given for them, unchanged, followed by the five fields of the
  detail dictionary, unchanged; the fields \<^verbatim>\<open>disponibilidad\<close>,
  \<^verbatim>\<open>imagen_url\<close> and \<^verbatim>\<open>libro_url\<close> of the catalog record are not part of it.
\<close>

theorem detailed_book_fields:
  "fst (scrape_book_details net lg url) = Some d \<longrightarrow>
     detailed_book t p r d = [(''titulo'', t), (''precio'', p), (''rating'', r)] @ d
     \<and> map fst (detailed_book t p r d)
         = [''titulo'', ''precio'', ''rating'', ''categoria'', ''descripcion'', ''upc'',
            ''impuestos'', ''stock'']
     \<and> map_of (detailed_book t p r d) ''titulo'' = Some t
     \<and> map_of (detailed_book t p r d) ''precio'' = Some p
     \<and> map_of (detailed_book t p r d) ''rating'' = Some r
     \<and> map_of (detailed_book t p r d) ''categoria'' = map_of d ''categoria''
     \<and> map_of (detailed_book t p r d) ''descripcion'' = map_of d ''descripcion''
     \<and> map_of (detailed_book t p r d) ''upc'' = map_of d ''upc''
     \<and> map_of (detailed_book t p r d) ''impuestos'' = map_of d ''impuestos''
     \<and> map_of (detailed_book t p r d) ''stock'' = map_of d ''stock''
     \<and> map_of (detailed_book t p r d) ''disponibilidad'' = None
     \<and> map_of (detailed_book t p r d) ''imagen_url'' = None
     \<and> map_of (detailed_book t p r d) ''libro_url'' = None"
proof
  assume "fst (scrape_book_details net lg url) = Some d"
  then have keys: "map fst d = [''categoria'', ''descripcion'', ''upc'', ''impuestos'', ''stock'']"
    by (rule scrape_book_details_keys)
  then obtain a b c e f where
    d: "d = [(''categoria'', a), (''descripcion'', b), (''upc'', c), (''impuestos'', e), (''stock'', f)]"
    by (auto simp: map_eq_Cons_conv)
  have m: "detailed_book t p r d = [(''titulo'', t), (''precio'', p), (''rating'', r)] @ d"
    using keys by (rule detailed_book_append)
  show "detailed_book t p r d = [(''titulo'', t), (''precio'', p), (''rating'', r)] @ d
     \<and> map fst (detailed_book t p r d)
         = [''titulo'', ''precio'', ''rating'', ''categoria'', ''descripcion'', ''upc'',
            ''impuestos'', ''stock'']
     \<and> map_of (detailed_book t p r d) ''titulo'' = Some t
     \<and> map_of (detailed_book t p r d) ''precio'' = Some p
     \<and> map_of (detailed_book t p r d) ''rating'' = Some r
     \<and> map_of (detailed_book t p r d) ''categoria'' = map_of d ''categoria''
     \<and> map_of (detailed_book t p r d) ''descripcion'' = map_of d ''descripcion''
     \<and> map_of (detailed_book t p r d) ''upc'' = map_of d ''upc''
     \<and> map_of (detailed_book t p r d) ''impuestos'' = map_of d ''impuestos''
     \<and> map_of (detailed_book t p r d) ''stock'' = map_of d ''stock''
     \<and> map_of (detailed_book t p r d) ''disponibilidad'' = None
     \<and> map_of (detailed_book t p r d) ''imagen_url'' = None
     \<and> map_of (detailed_book t p r d) ''libro_url'' = None"
    unfolding m by (simp add: d)
qed

theorem detailed_book_fields_witness:
  "fst (scrape_book_details first_only [] (PyStr ''u'')) = Some good_details
   \<and> detailed_book (PyStr ''A'') (PyFloat (Finite 1)) (PyInt 3) good_details
       = [(''titulo'', PyStr ''A''), (''precio'', PyFloat (Finite 1)), (''rating'', PyInt 3)]
         @ good_details
   \<and> map_of (detailed_book (PyStr ''A'') (PyFloat (Finite 1)) (PyInt 3) good_details)
        ''disponibilidad'' = None"
  using detailed_book_fields [of first_only "[]" "PyStr ''u''" good_details
          "PyStr ''A''" "PyFloat (Finite 1)" "PyInt 3"] first_only_reply(1) [of "''u''"]
  by (simp add: good_details_def)

text \<open>
  C7: the claim asks that the statistics be defined on an empty catalog. The code breaks
  it: when every page fails, \<open>scrape_books\<close> returns the frame of an empty list, which has
  no columns, and the first statistic, the mean of the column \<^verbatim>\<open>precio\<close>, raises
  \<^verbatim>\<open>KeyError\<close>, which nothing in \<open>main\<close> catches. On the catalog with the
  prices 10, 20 and 30 the statistics are the count 3, the mean 20, the minimum 10 and
  the maximum 30, as the claim says.
\<close>

theorem compute_stats_empty:
  "fst (scrape_books (\<lambda>k url. Failed) 5 []) = DataFrame []
   \<and> compute_stats (DataFrame []) = Inl (KeyError ''precio'')
   \<and> main (\<lambda>k url. Failed) = Inl (KeyError ''precio'')
   \<and> compute_stats (DataFrame [book_record ''A'' (Finite 10), book_record ''B'' (Finite 20),
                                book_record ''C'' (Finite 30)])
       = Inr \<lparr>total_libros = 3, precio_promedio = Finite 20, precio_minimo = Finite 10,
              precio_maximo = Finite 30, rating_promedio = Finite 3\<rparr>"
proof -
  have e: "compute_stats (DataFrame []) = Inl (KeyError ''precio'')"
    by (simp add: compute_stats_def DataFrame_def getitem_df_def bnd_simps Let_def)
  have m: "main (\<lambda>k url. Failed) = Inl (KeyError ''precio'')"
    using failed_pages [of 5 "[]"] e
    by (cases "scrape_books (\<lambda>k url. Failed) 5 []") (simp add: main_def Let_def bnd_simps)
  have s: "compute_stats (DataFrame [book_record ''A'' (Finite 10), book_record ''B'' (Finite 20),
                                book_record ''C'' (Finite 30)])
       = Inr \<lparr>total_libros = 3, precio_promedio = Finite 20, precio_minimo = Finite 10,
              precio_maximo = Finite 30, rating_promedio = Finite 3\<rparr>"
    by (simp add: compute_stats_def getitem_df_def book_record_columns len_df_def Let_def)
       (simp add: DataFrame_def book_record_get bnd_simps series_mean_def series_min_def
          series_max_def mean_floats_def min_floats_def max_floats_def dropna_def)
  from failed_pages [of 5 "[]"] e m s show ?thesis by (intro conjI)
qed

text \<open>
  C8: the claim asks for a pause between any two consecutive page requests, also after a
  failure. The code breaks it: the pause is the last statement of the \<^verbatim>\<open>try\<close>
  block, so an exception skips it. With two pages and a network that fails every request,
  the log is two requests with nothing between them; the same when the page arrives and
  a book of it fails to parse. Only a page that raises nothing is followed by the pause.
\<close>

theorem scrape_books_no_pause:
  "snd (scrape_books (\<lambda>k url. Failed) 2 [])
     = [Get (PyStr ''http://books.toscrape.com/catalogue/page-1.html''),
        Get (PyStr ''http://books.toscrape.com/catalogue/page-2.html'')]
   \<and> snd (scrape_books (\<lambda>k url. Response 200 three_books) 2 [])
     = [Get (PyStr ''http://books.toscrape.com/catalogue/page-1.html''),
        Get (PyStr ''http://books.toscrape.com/catalogue/page-2.html'')]
   \<and> snd (scrape_books (\<lambda>k url. Response 200 (catalog_page [])) 2 [])
     = [Get (PyStr ''http://books.toscrape.com/catalogue/page-1.html''), Sleep,
        Get (PyStr ''http://books.toscrape.com/catalogue/page-2.html''), Sleep]"
proof -
  have bad: "scrape_page (\<lambda>k url. Response 200 three_books) w page
        = \<lparr>all_books = all_books w @ [book_record ''A'' (Finite 1)],
           log = log w @ [Get (PyStr (page_url page))]\<rparr>" for w page
    by (simp add: scrape_page_def page_try_def requests_get_def Let_def bnd_simps
          raise_for_status_def three_books_loop)
  have "find_all ''article'' (Some ''product_pod'') (catalog_page []) = []"
    using find_all_catalog_page [of "[]"] by simp
  then have good: "scrape_page (\<lambda>k url. Response 200 (catalog_page [])) w page
        = \<lparr>all_books = all_books w, log = log w @ [Get (PyStr (page_url page)), Sleep]\<rparr>" for w page
    by (simp add: scrape_page_def page_try_def requests_get_def Let_def bnd_simps
          raise_for_status_def)
  show ?thesis
    by (simp add: scrape_books_def Let_def upto_examples failed_walk bad good page_urls)
qed

end
